theory Spec2Isabelle
  imports Main
begin

section \<open>Errors\<close>

text \<open>
  The request handlers raise \<^verbatim>\<open>HTTPException(status_code, detail)\<close>. The three status
  codes that occur are named as the specification names them: 404 is \<open>NotFound\<close>, 400 is
  \<open>Conflict\<close>, 403 is \<open>Forbidden\<close>; each carries the detail string of the source.
  \<open>TypeError\<close> is Python's exception for an arithmetic operator applied to \<^verbatim>\<open>None\<close>, and
  \<open>IntegrityError\<close> is the exception of the persistence layer when a commit violates a
  \<^verbatim>\<open>NOT NULL\<close> or \<^verbatim>\<open>UNIQUE\<close> constraint of a table.
  \<open>ResponseValidationError\<close> is the exception of the framework when the value that a
  settings handler returns does not fit the \<^verbatim>\<open>response_model\<close> of its route; the caller
  gets the status 500, after the handler has committed.
\<close>

datatype error =
    NotFound string
  | Conflict string
  | Forbidden string
  | TypeError
  | IntegrityError
  | ResponseValidationError

section \<open>Payroll calculator (services/salary\_service.py)\<close>

text \<open>
  The columns of \<^verbatim>\<open>salary_structures\<close> are \<^verbatim>\<open>Numeric(10, 2)\<close>: decimal numbers with two
  digits after the point. An amount is modelled by its number of hundredths, an integer.
  \<^verbatim>\<open>basic_salary\<close> is declared \<^verbatim>\<open>nullable=False\<close>; the other seven columns only have a
  default and may hold \<^verbatim>\<open>NULL\<close>, which the ORM loads as \<^verbatim>\<open>None\<close>.
\<close>

type_synonym decimal = int

record SalaryStructure =
  ss_id :: nat
  ss_employee_profile_id :: nat
  basic_salary :: decimal
  hra :: "decimal option"
  standard_allowance :: "decimal option"
  performance_bonus :: "decimal option"
  lta :: "decimal option"
  fixed_allowance :: "decimal option"
  professional_tax :: "decimal option"
  pf_contribution :: "decimal option"

text \<open>
  Python's \<^verbatim>\<open>Decimal\<close> computes a sum or a difference exactly and then rounds it to the
  precision of the context, 28 significant digits by default, with rounding half to even.
  \<open>ndigits\<close> counts the decimal digits of a coefficient, \<open>round_half_even n d\<close> is
  \<open>n / d\<close> rounded to the nearest integer, and \<open>decimal_fix\<close> is the rounding step applied to
  the number of hundredths of an exact result.
\<close>

definition prec :: nat where
  "prec = 28"

function ndigits :: "nat \<Rightarrow> nat" where
  "ndigits n = (if n < 10 then 1 else Suc (ndigits (n div 10)))"
  by pat_completeness auto
termination
  by (relation "measure (\<lambda>n. n)") auto

declare ndigits.simps [simp del]

definition round_half_even :: "nat \<Rightarrow> nat \<Rightarrow> nat" where
  "round_half_even n d =
     (let q = n div d; r = n mod d
      in if 2 * r < d then q
         else if d < 2 * r then q + 1
         else if even q then q else q + 1)"

definition decimal_fix :: "int \<Rightarrow> decimal" where
  "decimal_fix c =
     (if \<bar>c\<bar> < 10 ^ prec then c
      else let k = ndigits (nat \<bar>c\<bar>) - prec
           in sgn c * int (round_half_even (nat \<bar>c\<bar>) (10 ^ k) * 10 ^ k))"

definition decimal_add :: "decimal \<Rightarrow> decimal \<Rightarrow> decimal" where
  "decimal_add a b = decimal_fix (a + b)"

definition decimal_sub :: "decimal \<Rightarrow> decimal \<Rightarrow> decimal" where
  "decimal_sub a b = decimal_fix (a - b)"

text \<open>
  \<^verbatim>\<open>x + y\<close> and \<^verbatim>\<open>x - y\<close> as Python evaluates them on column values: an operand that is
  \<^verbatim>\<open>None\<close> raises \<open>TypeError\<close>, and an exception raised by the left operand propagates.
\<close>

fun py_add :: "error + decimal \<Rightarrow> decimal option \<Rightarrow> error + decimal" where
  "py_add (Inl e) _ = Inl e"
| "py_add (Inr a) None = Inl TypeError"
| "py_add (Inr a) (Some b) = Inr (decimal_add a b)"

fun py_sub :: "error + decimal \<Rightarrow> error + decimal \<Rightarrow> error + decimal" where
  "py_sub (Inl e) _ = Inl e"
| "py_sub (Inr a) (Inl e) = Inl e"
| "py_sub (Inr a) (Inr b) = Inr (decimal_sub a b)"

fun column :: "decimal option \<Rightarrow> error + decimal" where
  "column None = Inl TypeError"
| "column (Some a) = Inr a"

text \<open>The dictionary that \<^verbatim>\<open>calculate_net_salary\<close> returns.\<close>

record salary_figures =
  gross_salary :: decimal
  total_deductions :: decimal
  net_salary :: decimal

definition calculate_net_salary :: "SalaryStructure \<Rightarrow> error + salary_figures" where
  "calculate_net_salary salary_structure =
     (case py_add (py_add (py_add (py_add (py_add
              (Inr (basic_salary salary_structure))
              (hra salary_structure))
              (standard_allowance salary_structure))
              (performance_bonus salary_structure))
              (lta salary_structure))
              (fixed_allowance salary_structure) of
        Inl e \<Rightarrow> Inl e
      | Inr gross \<Rightarrow>
          (case py_add (column (professional_tax salary_structure))
                  (pf_contribution salary_structure) of
             Inl e \<Rightarrow> Inl e
           | Inr deductions \<Rightarrow>
               (case py_sub (Inr gross) (Inr deductions) of
                  Inl e \<Rightarrow> Inl e
                | Inr net \<Rightarrow>
                    Inr \<lparr>gross_salary = gross,
                         total_deductions = deductions,
                         net_salary = net\<rparr>)))"

text \<open>A value that fits a \<^verbatim>\<open>Numeric(10, 2)\<close> column: at most ten digits in all.\<close>

definition numeric_10_2 :: "decimal \<Rightarrow> bool" where
  "numeric_10_2 c \<longleftrightarrow> \<bar>c\<bar> < 10 ^ 10"

section \<open>Data model (app/models)\<close>

text \<open>
  A date is the ordinal number of a day and a datetime a number of seconds; the handlers
  only store and compare them. The readings of the clock, \<^verbatim>\<open>datetime.now()\<close> and
  \<^verbatim>\<open>date.today()\<close>, are parameters of the handlers that take them.
\<close>

type_synonym date = nat
type_synonym datetime = nat

datatype UserRole = ADMIN | HR_OFFICER | EMPLOYEE

datatype AttendanceStatus = PRESENT | ABSENT | HALF_DAY | LEAVE

datatype CorrectionRequestStatus = PENDING | APPROVED | REJECTED

text \<open>
  One record type for each ORM class. A field keeps the name of its column; where two
  classes share a column name (\<^verbatim>\<open>id\<close>, \<^verbatim>\<open>user_id\<close>, \<^verbatim>\<open>status\<close>, ...) the field is
  prefixed by an abbreviation of the class. A nullable column has an \<open>option\<close> type.
  The columns that the database server fills by itself (\<^verbatim>\<open>created_at\<close>, \<^verbatim>\<open>updated_at\<close>,
  \<^verbatim>\<open>timestamp\<close>) are left out.
\<close>

record User =
  u_id :: nat
  email :: string
  hashed_password :: string
  role :: UserRole
  is_active :: "bool option"

text \<open>
  Modelled from the spec: the class \<^verbatim>\<open>EmployeeProfile\<close> of app/models/employee.py, which
  is not among the sources. The specification gives it an id, the id of its user and the id
  of its company; the handlers read the first two.
\<close>

record EmployeeProfile =
  ep_id :: nat
  ep_user_id :: nat
  ep_company_id :: nat

record Attendance =
  att_id :: nat
  att_employee_profile_id :: nat
  att_date :: date
  att_check_in_time :: "datetime option"
  att_check_out_time :: "datetime option"
  att_status :: AttendanceStatus
  att_notes :: "string option"

record AttendanceCorrectionRequest =
  req_id :: nat
  req_attendance_id :: nat
  requested_by_id :: nat
  reason :: string
  requested_check_in_time :: "datetime option"
  requested_check_out_time :: "datetime option"
  req_status :: CorrectionRequestStatus
  reviewed_by_id :: "nat option"
  reviewed_at :: "datetime option"
  reviewer_comments :: "string option"

record UserSettings =
  set_id :: nat
  set_user_id :: nat
  receive_notifications :: "bool option"
  theme :: "string option"
  language :: "string option"

record ActivityLog =
  log_id :: nat
  log_user_id :: nat
  action :: string
  details :: "string option"

section \<open>The persistence store\<close>

text \<open>
  A table is the list of its rows, in insertion order. The state of the store is one
  table for each class. A handler takes the store and returns its result, an error or a
  value, together with the store it leaves behind.
\<close>

record db =
  users :: "User list"
  employee_profiles :: "EmployeeProfile list"
  attendances :: "Attendance list"
  attendance_correction_requests :: "AttendanceCorrectionRequest list"
  user_settings :: "UserSettings list"
  activity_logs :: "ActivityLog list"

text \<open>
  \<^verbatim>\<open>db.query(T).filter(p).first()\<close> is \<open>find p\<close> on the table of \<open>T\<close>: the first row
  that satisfies \<open>p\<close>, or \<open>None\<close>. Assigning to the attributes of the object found and
  committing rewrites that row: \<open>update_first p f\<close> applies \<open>f\<close> to the first row that
  satisfies \<open>p\<close>. A new row gets a primary key that no row of the table has:
  \<open>next_id\<close> is one more than the largest key.
\<close>

fun update_first :: "('a \<Rightarrow> bool) \<Rightarrow> ('a \<Rightarrow> 'a) \<Rightarrow> 'a list \<Rightarrow> 'a list" where
  "update_first p f [] = []"
| "update_first p f (x # xs) = (if p x then f x # xs else x # update_first p f xs)"

definition next_id :: "nat list \<Rightarrow> nat" where
  "next_id ids = Suc (fold max ids 0)"

section \<open>Attendance (app/api/attendance.py)\<close>

definition check_in :: "datetime \<Rightarrow> date \<Rightarrow> User \<Rightarrow> db \<Rightarrow> (error + Attendance) \<times> db" where
  "check_in now today current_user db =
     (case find (\<lambda>p. ep_user_id p = u_id current_user) (employee_profiles db) of
        None \<Rightarrow> (Inl (NotFound ''Employee profile not found for this user''), db)
      | Some employee_profile \<Rightarrow>
          (let todays = (\<lambda>a. att_employee_profile_id a = ep_id employee_profile
                              \<and> att_date a = today)
           in case find todays (attendances db) of
                Some existing_attendance \<Rightarrow>
                  if att_check_in_time existing_attendance \<noteq> None
                  then (Inl (Conflict ''Already checked in for today''), db)
                  else
                    (let updated = existing_attendance
                           \<lparr>att_check_in_time := Some now, att_status := PRESENT\<rparr>
                     in (Inr updated,
                         db\<lparr>attendances :=
                              update_first todays (\<lambda>_. updated) (attendances db)\<rparr>))
              | None \<Rightarrow>
                  (let new_attendance =
                         \<lparr>att_id = next_id (map att_id (attendances db)),
                          att_employee_profile_id = ep_id employee_profile,
                          att_date = today,
                          att_check_in_time = Some now,
                          att_check_out_time = None,
                          att_status = PRESENT,
                          att_notes = None\<rparr>
                   in (Inr new_attendance,
                       db\<lparr>attendances := attendances db @ [new_attendance]\<rparr>))))"

definition check_out :: "datetime \<Rightarrow> date \<Rightarrow> User \<Rightarrow> db \<Rightarrow> (error + Attendance) \<times> db" where
  "check_out now today current_user db =
     (case find (\<lambda>p. ep_user_id p = u_id current_user) (employee_profiles db) of
        None \<Rightarrow> (Inl (NotFound ''Employee profile not found for this user''), db)
      | Some employee_profile \<Rightarrow>
          (let todays = (\<lambda>a. att_employee_profile_id a = ep_id employee_profile
                              \<and> att_date a = today)
           in case find todays (attendances db) of
                None \<Rightarrow> (Inl (Conflict ''You have not checked in today''), db)
              | Some attendance_record \<Rightarrow>
                  if att_check_in_time attendance_record = None
                  then (Inl (Conflict ''You have not checked in today''), db)
                  else if att_check_out_time attendance_record \<noteq> None
                  then (Inl (Conflict ''Already checked out for today''), db)
                  else
                    (let updated = attendance_record\<lparr>att_check_out_time := Some now\<rparr>
                     in (Inr updated,
                         db\<lparr>attendances :=
                              update_first todays (\<lambda>_. updated) (attendances db)\<rparr>))))"

text \<open>
  Modelled from the spec: the schema \<^verbatim>\<open>AttendanceManualCreate\<close> of
  app/schemas/attendance.py, which is not among the sources. Its fields are the six that
  the handler and the manual API walkthrough use: the key (employee profile, date) and the
  four fields that a manual entry overwrites.
\<close>

record AttendanceManualCreate =
  in_employee_profile_id :: nat
  in_date :: date
  in_check_in_time :: "datetime option"
  in_check_out_time :: "datetime option"
  in_status :: AttendanceStatus
  in_notes :: "string option"

definition manual_attendance_entry ::
    "AttendanceManualCreate \<Rightarrow> User \<Rightarrow> db \<Rightarrow> (error + Attendance) \<times> db" where
  "manual_attendance_entry attendance_in current_user db =
     (case find (\<lambda>p. ep_id p = in_employee_profile_id attendance_in)
             (employee_profiles db) of
        None \<Rightarrow> (Inl (NotFound ''Employee profile not found''), db)
      | Some employee_profile \<Rightarrow>
          (let keyed = (\<lambda>a. att_employee_profile_id a = in_employee_profile_id attendance_in
                             \<and> att_date a = in_date attendance_in)
           in case find keyed (attendances db) of
                Some attendance \<Rightarrow>
                  (let updated = attendance
                         \<lparr>att_check_in_time := in_check_in_time attendance_in,
                          att_check_out_time := in_check_out_time attendance_in,
                          att_status := in_status attendance_in,
                          att_notes := in_notes attendance_in\<rparr>
                   in (Inr updated,
                       db\<lparr>attendances :=
                            update_first keyed (\<lambda>_. updated) (attendances db)\<rparr>))
              | None \<Rightarrow>
                  (let attendance =
                         \<lparr>att_id = next_id (map att_id (attendances db)),
                          att_employee_profile_id = in_employee_profile_id attendance_in,
                          att_date = in_date attendance_in,
                          att_check_in_time = in_check_in_time attendance_in,
                          att_check_out_time = in_check_out_time attendance_in,
                          att_status = in_status attendance_in,
                          att_notes = in_notes attendance_in\<rparr>
                   in (Inr attendance,
                       db\<lparr>attendances := attendances db @ [attendance]\<rparr>))))"

text \<open>The invariant of the attendance table: no two rows have the same employee and date.\<close>

definition one_record_per_day :: "Attendance list \<Rightarrow> bool" where
  "one_record_per_day rows =
     distinct (map (\<lambda>a. (att_employee_profile_id a, att_date a)) rows)"

text \<open>
  The states that check-in and manual entry reach: a request of one of the two kinds
  takes the store to the store that its handler leaves, and \<open>fold serve\<close> runs a
  sequence of requests.
\<close>

datatype attendance_request =
    CheckIn datetime date User
  | ManualEntry AttendanceManualCreate User

fun serve :: "attendance_request \<Rightarrow> db \<Rightarrow> db" where
  "serve (CheckIn now today current_user) db = snd (check_in now today current_user db)"
| "serve (ManualEntry attendance_in current_user) db =
     snd (manual_attendance_entry attendance_in current_user db)"

section \<open>Attendance correction requests (app/api/attendance\_correction.py)\<close>

definition approve_correction_request ::
    "datetime \<Rightarrow> nat \<Rightarrow> User \<Rightarrow> db \<Rightarrow> (error + AttendanceCorrectionRequest) \<times> db" where
  "approve_correction_request now request_id current_user db =
     (case find (\<lambda>r. req_id r = request_id) (attendance_correction_requests db) of
        None \<Rightarrow> (Inl (NotFound ''Correction request not found''), db)
      | Some db_request \<Rightarrow>
          if req_status db_request \<noteq> PENDING
          then (Inl (Conflict ''Request is not pending''), db)
          else
            (let approved = db_request
                   \<lparr>req_status := APPROVED,
                    reviewed_by_id := Some (u_id current_user),
                    reviewed_at := Some now\<rparr>;
                 target = (\<lambda>a. att_id a = req_attendance_id approved);
                 rows =
                   (case find target (attendances db) of
                      Some attendance \<Rightarrow>
                        update_first target
                          (\<lambda>_. attendance
                             \<lparr>att_check_in_time := requested_check_in_time approved,
                              att_check_out_time := requested_check_out_time approved\<rparr>)
                          (attendances db)
                    | None \<Rightarrow> attendances db)
             in (Inr approved,
                 db\<lparr>attendances := rows,
                    attendance_correction_requests :=
                      update_first (\<lambda>r. req_id r = request_id) (\<lambda>_. approved)
                        (attendance_correction_requests db)\<rparr>)))"

section \<open>Users (app/api/users.py)\<close>



definition assigned :: "'a option \<Rightarrow> 'a \<Rightarrow> 'a" where
  "assigned upd current = (case upd of None \<Rightarrow> current | Some v \<Rightarrow> v)"


section \<open>Settings (app/api/settings.py)\<close>

text \<open>
  \<^verbatim>\<open>UserSettings(user_id=...)\<close>: the row that the insert stores, with the defaults of the
  columns.
\<close>

definition new_user_settings :: "nat \<Rightarrow> nat \<Rightarrow> UserSettings" where
  "new_user_settings new_id user_id =
     \<lparr>set_id = new_id, set_user_id = user_id,
      receive_notifications = Some True, theme = Some ''light'', language = Some ''en''\<rparr>"

text \<open>
  Both routes declare \<^verbatim>\<open>response_model=UserSettingsSchema\<close> (app/schemas/user\_settings.py),
  whose fields \<^verbatim>\<open>receive_notifications: bool\<close>, \<^verbatim>\<open>theme: str\<close> and \<^verbatim>\<open>language: str\<close>
  are not optional: the row that a handler returns is validated against the schema, and a
  row that holds \<^verbatim>\<open>None\<close> in one of the three does not pass.
\<close>

definition UserSettingsSchema :: "UserSettings \<Rightarrow> error + UserSettings" where
  "UserSettingsSchema row =
     (if receive_notifications row = None \<or> theme row = None \<or> language row = None
      then Inl ResponseValidationError else Inr row)"

definition get_my_settings :: "User \<Rightarrow> db \<Rightarrow> (error + UserSettings) \<times> db" where
  "get_my_settings current_user db =
     (case find (\<lambda>s. set_user_id s = u_id current_user) (user_settings db) of
        Some user_settings_row \<Rightarrow> (UserSettingsSchema user_settings_row, db)
      | None \<Rightarrow>
          (let user_settings_row =
                 new_user_settings (next_id (map set_id (user_settings db))) (u_id current_user)
           in (UserSettingsSchema user_settings_row,
               db\<lparr>user_settings := user_settings db @ [user_settings_row]\<rparr>)))"

record UserSettingsUpdate =
  upd_receive_notifications :: "bool option option"
  upd_theme :: "string option option"
  upd_language :: "string option option"

definition update_my_settings ::
    "UserSettingsUpdate \<Rightarrow> User \<Rightarrow> db \<Rightarrow> (error + UserSettings) \<times> db" where
  "update_my_settings settings_update current_user db =
     (case find (\<lambda>s. set_user_id s = u_id current_user) (user_settings db) of
        None \<Rightarrow> (Inl (NotFound ''User settings not found''), db)
      | Some user_settings_row \<Rightarrow>
          (let updated = user_settings_row
                 \<lparr>receive_notifications :=
                    assigned (upd_receive_notifications settings_update)
                      (receive_notifications user_settings_row),
                  theme := assigned (upd_theme settings_update) (theme user_settings_row),
                  language :=
                    assigned (upd_language settings_update) (language user_settings_row)\<rparr>
           in (UserSettingsSchema updated,
               db\<lparr>user_settings :=
                    update_first (\<lambda>s. set_user_id s = u_id current_user) (\<lambda>_. updated)
                      (user_settings db)\<rparr>)))"

section \<open>Registration (app/api/auth.py, app/services/activity\_service.py)\<close>

definition log_activity :: "nat \<Rightarrow> string \<Rightarrow> string option \<Rightarrow> db \<Rightarrow> db" where
  "log_activity user_id act det db =
     db\<lparr>activity_logs := activity_logs db @
          [\<lparr>log_id = next_id (map log_id (activity_logs db)),
            log_user_id = user_id, action = act, details = det\<rparr>]\<rparr>"

record UserCreate =
  new_email :: string
  new_role :: UserRole
  new_is_active :: bool
  new_password :: string

text \<open>
  \<^verbatim>\<open>register_user\<close> commits twice before it logs the activity: the user first, then the
  settings row. \<^verbatim>\<open>user_settings.user_id\<close> is unique, so the second commit raises
  \<open>IntegrityError\<close> when the table already holds a row for the id of the new user, and
  the user stays committed.
\<close>

definition register_user ::
    "(string \<Rightarrow> string) \<Rightarrow> UserCreate \<Rightarrow> db \<Rightarrow> (error + User) \<times> db" where
  "register_user get_password_hash user db =
     (case find (\<lambda>u. email u = new_email user) (users db) of
        Some db_user \<Rightarrow> (Inl (Conflict ''Email already registered''), db)
      | None \<Rightarrow>
          (let db_user =
                 \<lparr>u_id = next_id (map u_id (users db)),
                  email = new_email user,
                  hashed_password = get_password_hash (new_password user),
                  role = new_role user,
                  is_active = Some (new_is_active user)\<rparr>;
               db1 = db\<lparr>users := users db @ [db_user]\<rparr>
           in if find (\<lambda>s. set_user_id s = u_id db_user) (user_settings db1) \<noteq> None
              then (Inl IntegrityError, db1)
              else
                (let user_settings_row =
                       new_user_settings (next_id (map set_id (user_settings db1)))
                         (u_id db_user);
                     db2 = db1\<lparr>user_settings := user_settings db1 @ [user_settings_row]\<rparr>
                 in (Inr db_user,
                     log_activity (u_id db_user) ''User registration''
                       (Some (''User '' @ email db_user @ '' registered.'')) db2))))"

text \<open>
  The ownership invariant of the settings table (section 3 of the specification: a
  settings row is owned by its user and deleted with it): every settings row belongs to a
  user of the users table.
\<close>

definition settings_owned :: "db \<Rightarrow> bool" where
  "settings_owned db =
     list_all (\<lambda>s. set_user_id s \<in> set (map u_id (users db))) (user_settings db)"

section \<open>An example store\<close>

text \<open>
  A store with an administrator, an HR officer and two employees, Alice and Bob. On day
  100 Alice has been marked absent and Bob has checked in. Bob has two pending correction
  requests: the first asks for a check-out time that lies before the check-in time, the
  second names an attendance record that does not exist. Only the administrator has a
  settings row.
\<close>

definition example_admin :: User where
  "example_admin =
     \<lparr>u_id = 1, email = ''admin@example.com'', hashed_password = ''h1'',
      role = ADMIN, is_active = Some True\<rparr>"

definition example_alice :: User where
  "example_alice =
     \<lparr>u_id = 2, email = ''alice@x.com'', hashed_password = ''h2'',
      role = EMPLOYEE, is_active = Some True\<rparr>"

definition example_hr :: User where
  "example_hr =
     \<lparr>u_id = 3, email = ''hr@x.com'', hashed_password = ''h3'',
      role = HR_OFFICER, is_active = Some True\<rparr>"

definition example_bob :: User where
  "example_bob =
     \<lparr>u_id = 4, email = ''bob@x.com'', hashed_password = ''h4'',
      role = EMPLOYEE, is_active = Some True\<rparr>"

definition example_db :: db where
  "example_db =
     \<lparr>users = [example_admin, example_alice, example_hr, example_bob],
      employee_profiles =
        [\<lparr>ep_id = 10, ep_user_id = 2, ep_company_id = 1\<rparr>,
         \<lparr>ep_id = 11, ep_user_id = 4, ep_company_id = 1\<rparr>],
      attendances =
        [\<lparr>att_id = 1, att_employee_profile_id = 10, att_date = 100,
          att_check_in_time = None, att_check_out_time = None,
          att_status = ABSENT, att_notes = None\<rparr>,
         \<lparr>att_id = 2, att_employee_profile_id = 11, att_date = 100,
          att_check_in_time = Some 900, att_check_out_time = None,
          att_status = PRESENT, att_notes = None\<rparr>],
      attendance_correction_requests =
        [\<lparr>req_id = 1, req_attendance_id = 2, requested_by_id = 4,
          reason = ''Missed checkout'',
          requested_check_in_time = Some 1700, requested_check_out_time = Some 800,
          req_status = PENDING, reviewed_by_id = None, reviewed_at = None,
          reviewer_comments = None\<rparr>,
         \<lparr>req_id = 2, req_attendance_id = 99, requested_by_id = 4,
          reason = ''Wrong day'',
          requested_check_in_time = Some 900, requested_check_out_time = None,
          req_status = PENDING, reviewed_by_id = None, reviewed_at = None,
          reviewer_comments = None\<rparr>],
      user_settings =
        [\<lparr>set_id = 1, set_user_id = 1, receive_notifications = Some False,
          theme = Some ''dark'', language = Some ''en''\<rparr>],
      activity_logs = []\<rparr>"

section \<open>Unfolding the example store\<close>

lemmas example_defs =
  example_db_def example_admin_def example_alice_def example_hr_def example_bob_def

section \<open>Properties of the payroll calculator\<close>

lemma fix_small: "\<bar>c\<bar> < 10 ^ 28 \<Longrightarrow> decimal_fix c = c"
  by (simp add: decimal_fix_def prec_def)

lemma abs_add_bound:
  fixes a b :: int
  assumes "\<bar>a\<bar> < m" and "\<bar>b\<bar> < n"
  shows "\<bar>a + b\<bar> < m + n"
  using assms by linarith

lemma abs_diff_bound:
  fixes a b :: int
  assumes "\<bar>a\<bar> < m" and "\<bar>b\<bar> < n"
  shows "\<bar>a - b\<bar> < m + n"
  using assms by linarith

lemma decimal_add_exact:
  assumes "\<bar>a\<bar> < m" and "\<bar>b\<bar> < n" and "m + n \<le> 10 ^ 28"
  shows "decimal_add a b = a + b"
proof -
  have "\<bar>a + b\<bar> < m + n" using assms(1,2) by (rule abs_add_bound)
  then have "\<bar>a + b\<bar> < 10 ^ 28" using assms(3) by linarith
  then show ?thesis by (simp add: decimal_add_def fix_small)
qed

lemma decimal_sub_exact:
  assumes "\<bar>a\<bar> < m" and "\<bar>b\<bar> < n" and "m + n \<le> 10 ^ 28"
  shows "decimal_sub a b = a - b"
proof -
  have "\<bar>a - b\<bar> < m + n" using assms(1,2) by (rule abs_diff_bound)
  then have "\<bar>a - b\<bar> < 10 ^ 28" using assms(3) by linarith
  then show ?thesis by (simp add: decimal_sub_def fix_small)
qed

text \<open>
  Outside the range of the columns the sum is not exact: a coefficient of 29 digits is
  rounded to 28.
\<close>

lemma decimal_add_rounds:
  "decimal_add 10000000000000000000000000000 6 = 10000000000000000000000000010"
  by (simp add: decimal_add_def decimal_fix_def prec_def ndigits.simps
      round_half_even_def Let_def)

text \<open>
  Claim C1, as amended. For every salary structure whose seven nullable components are
  present and whose eight components fit their \<^verbatim>\<open>Numeric(10, 2)\<close> columns (negative
  amounts included), \<open>calculate_net_salary\<close> returns without an error: the gross salary
  is the exact sum of the six additive components, the total of the deductions is the exact
  sum of the professional tax and the provident fund contribution, and the net salary is
  the gross salary minus the deductions. No rounding takes place.
\<close>

theorem calculate_net_salary_exact:
  assumes present:
    "hra s = Some h" "standard_allowance s = Some sa" "performance_bonus s = Some pb"
    "lta s = Some l" "fixed_allowance s = Some fa"
    "professional_tax s = Some pt" "pf_contribution s = Some pf"
  and range:
    "numeric_10_2 (basic_salary s)" "numeric_10_2 h" "numeric_10_2 sa" "numeric_10_2 pb"
    "numeric_10_2 l" "numeric_10_2 fa" "numeric_10_2 pt" "numeric_10_2 pf"
  shows "calculate_net_salary s =
           Inr \<lparr>gross_salary = basic_salary s + h + sa + pb + l + fa,
                total_deductions = pt + pf,
                net_salary = (basic_salary s + h + sa + pb + l + fa) - (pt + pf)\<rparr>"
proof -
  define b where "b = basic_salary s"
  define B :: int where "B = 10 ^ 10"
  have rb: "\<bar>b\<bar> < B" and rh: "\<bar>h\<bar> < B" and rsa: "\<bar>sa\<bar> < B" and rpb: "\<bar>pb\<bar> < B"
    and rl: "\<bar>l\<bar> < B" and rfa: "\<bar>fa\<bar> < B" and rpt: "\<bar>pt\<bar> < B" and rpf: "\<bar>pf\<bar> < B"
    using range by (simp_all add: numeric_10_2_def b_def B_def)
  have small: "6 * B + 2 * B \<le> 10 ^ 28" by (simp add: B_def)
  have B0: "0 \<le> B" by (simp add: B_def)
  have b1: "\<bar>b + h\<bar> < 2 * B"
    using abs_add_bound [OF rb rh] by simp
  have b2: "\<bar>b + h + sa\<bar> < 3 * B"
    using abs_add_bound [OF b1 rsa] by simp
  have b3: "\<bar>b + h + sa + pb\<bar> < 4 * B"
    using abs_add_bound [OF b2 rpb] by simp
  have b4: "\<bar>b + h + sa + pb + l\<bar> < 5 * B"
    using abs_add_bound [OF b3 rl] by simp
  have b5: "\<bar>b + h + sa + pb + l + fa\<bar> < 6 * B"
    using abs_add_bound [OF b4 rfa] by simp
  have b6: "\<bar>pt + pf\<bar> < 2 * B"
    using abs_add_bound [OF rpt rpf] by simp
  have s1: "decimal_add b h = b + h"
    using small B0 by (intro decimal_add_exact [OF rb rh]) linarith
  have s2: "decimal_add (b + h) sa = b + h + sa"
    using small B0 by (intro decimal_add_exact [OF b1 rsa]) linarith
  have s3: "decimal_add (b + h + sa) pb = b + h + sa + pb"
    using small B0 by (intro decimal_add_exact [OF b2 rpb]) linarith
  have s4: "decimal_add (b + h + sa + pb) l = b + h + sa + pb + l"
    using small B0 by (intro decimal_add_exact [OF b3 rl]) linarith
  have s5: "decimal_add (b + h + sa + pb + l) fa = b + h + sa + pb + l + fa"
    using small B0 by (intro decimal_add_exact [OF b4 rfa]) linarith
  have d: "decimal_add pt pf = pt + pf"
    using small B0 by (intro decimal_add_exact [OF rpt rpf]) linarith
  have n: "decimal_sub (b + h + sa + pb + l + fa) (pt + pf)
             = (b + h + sa + pb + l + fa) - (pt + pf)"
    using small by (intro decimal_sub_exact [OF b5 b6])
  show ?thesis
    unfolding calculate_net_salary_def
    by (simp add: present b_def [symmetric] s1 s2 s3 s4 s5 d n)
qed

text \<open>
  The scenario of the specification, in hundredths: basic 50000, hra 10000, standard 5000,
  bonus 2000, lta 1000, fixed 3000, tax 200, pf 1500 give gross 71000, deductions 1700 and
  net 69300.
\<close>

theorem calculate_net_salary_exact_witness:
  "calculate_net_salary
     \<lparr>ss_id = 1, ss_employee_profile_id = 1, basic_salary = 5000000,
      hra = Some 1000000, standard_allowance = Some 500000,
      performance_bonus = Some 200000, lta = Some 100000,
      fixed_allowance = Some 300000, professional_tax = Some 20000,
      pf_contribution = Some 150000\<rparr>
   = Inr \<lparr>gross_salary = 7100000, total_deductions = 170000, net_salary = 6930000\<rparr>"
  using calculate_net_salary_exact
    [of "\<lparr>ss_id = 1, ss_employee_profile_id = 1, basic_salary = 5000000,
          hra = Some 1000000, standard_allowance = Some 500000,
          performance_bonus = Some 200000, lta = Some 100000,
          fixed_allowance = Some 300000, professional_tax = Some 20000,
          pf_contribution = Some 150000\<rparr>"
        1000000 500000 200000 100000 300000 20000 150000]
  by (simp add: numeric_10_2_def)

text \<open>
  As stated, the claim fails: a structure whose housing allowance is \<^verbatim>\<open>NULL\<close> makes the
  function raise \<open>TypeError\<close>, so it is not total on salary structures.
\<close>

theorem calculate_net_salary_null_counterexample:
  "calculate_net_salary
     \<lparr>ss_id = 1, ss_employee_profile_id = 1, basic_salary = 5000000,
      hra = None, standard_allowance = Some 500000,
      performance_bonus = Some 200000, lta = Some 100000,
      fixed_allowance = Some 300000, professional_tax = Some 20000,
      pf_contribution = Some 150000\<rparr>
   = Inl TypeError"
  by (simp add: calculate_net_salary_def)

section \<open>Lemmas about the store\<close>

lemma map_update_first:
  "find p xs = Some y \<Longrightarrow> k z = k y \<Longrightarrow> map k (update_first p (\<lambda>_. z) xs) = map k xs"
  by (induction xs) (auto split: if_splits)

lemma find_update_first:
  "find p xs = Some y \<Longrightarrow> p z \<Longrightarrow> find p (update_first p (\<lambda>_. z) xs) = Some z"
  by (induction xs) (auto split: if_splits)

lemma update_first_twice:
  "p z \<Longrightarrow> update_first p (\<lambda>_. z) (update_first p (\<lambda>_. z) xs) = update_first p (\<lambda>_. z) xs"
  by (induction xs) auto

lemma find_snoc:
  "find p (xs @ [z]) = (case find p xs of Some y \<Rightarrow> Some y | None \<Rightarrow> if p z then Some z else None)"
  by (induction xs) auto

lemma update_first_snoc:
  "find p xs = None \<Longrightarrow> p z \<Longrightarrow> update_first p f (xs @ [z]) = xs @ [f z]"
  by (induction xs) (auto split: if_splits)

lemma find_Some_holds: "find p xs = Some y \<Longrightarrow> p y \<and> y \<in> set xs"
  by (induction xs) (auto split: if_splits)

lemma update_first_unique:
  assumes "distinct (map k rows)"
  shows "update_first (\<lambda>r. k r = v) f rows = map (\<lambda>r. if k r = v then f r else r) rows"
  using assms
proof (induction rows)
  case Nil
  then show ?case by simp
next
  case (Cons x xs)
  show ?case
  proof (cases "k x = v")
    case True
    have "k x \<notin> k ` set xs" using Cons.prems by simp
    then have "\<forall>r\<in>set xs. k r \<noteq> v" using True by (metis imageI)
    then have "map (\<lambda>r. if k r = v then f r else r) xs = xs"
      by (induction xs) auto
    then show ?thesis using True by simp
  next
    case False
    then show ?thesis using Cons by simp
  qed
qed

lemma find_unique:
  assumes "distinct (map k rows)" and "a \<in> set rows" and "k a = v"
  shows "find (\<lambda>r. k r = v) rows = Some a"
  using assms by (induction rows) (auto simp: rev_image_eqI)


section \<open>Properties of attendance\<close>

lemma one_record_per_day_update:
  assumes "one_record_per_day rows" and "find p rows = Some y"
    and "att_employee_profile_id z = att_employee_profile_id y" and "att_date z = att_date y"
  shows "one_record_per_day (update_first p (\<lambda>_. z) rows)"
  using assms map_update_first [of p rows y "\<lambda>a. (att_employee_profile_id a, att_date a)" z]
  by (simp add: one_record_per_day_def)

lemma one_record_per_day_insert:
  assumes "one_record_per_day rows"
    and "find (\<lambda>a. att_employee_profile_id a = e \<and> att_date a = d) rows = None"
    and "att_employee_profile_id z = e" and "att_date z = d"
  shows "one_record_per_day (rows @ [z])"
proof -
  have "(e, d) \<notin> set (map (\<lambda>a. (att_employee_profile_id a, att_date a)) rows)"
    using assms(2) by (auto simp: find_None_iff)
  then show ?thesis using assms(1,3,4) by (simp add: one_record_per_day_def)
qed

lemma check_in_preserves_invariant:
  assumes "one_record_per_day (attendances db)"
  shows "one_record_per_day (attendances (snd (check_in now today current_user db)))"
proof (cases "find (\<lambda>p. ep_user_id p = u_id current_user) (employee_profiles db)")
  case None
  then show ?thesis using assms by (simp add: check_in_def)
next
  case (Some ep)
  let ?todays = "\<lambda>a. att_employee_profile_id a = ep_id ep \<and> att_date a = today"
  show ?thesis
  proof (cases "find ?todays (attendances db)")
    case None
    then show ?thesis
      using Some assms one_record_per_day_insert [OF assms None]
      by (simp add: check_in_def Let_def)
  next
    case (Some a)
    note found = this
    show ?thesis
    proof (cases "att_check_in_time a")
      case None
      then show ?thesis
        using \<open>find _ (employee_profiles db) = Some ep\<close> found
          one_record_per_day_update [OF assms found]
        by (simp add: check_in_def Let_def)
    next
      case (Some t)
      then show ?thesis
        using \<open>find _ (employee_profiles db) = Some ep\<close> found assms
        by (simp add: check_in_def Let_def)
    qed
  qed
qed

lemma manual_entry_preserves_invariant:
  assumes "one_record_per_day (attendances db)"
  shows "one_record_per_day
           (attendances (snd (manual_attendance_entry attendance_in current_user db)))"
proof (cases "find (\<lambda>p. ep_id p = in_employee_profile_id attendance_in) (employee_profiles db)")
  case None
  then show ?thesis using assms by (simp add: manual_attendance_entry_def)
next
  case (Some ep)
  let ?keyed = "\<lambda>a. att_employee_profile_id a = in_employee_profile_id attendance_in
                    \<and> att_date a = in_date attendance_in"
  show ?thesis
  proof (cases "find ?keyed (attendances db)")
    case None
    then show ?thesis
      using Some one_record_per_day_insert [OF assms None]
      by (simp add: manual_attendance_entry_def Let_def)
  next
    case (Some a)
    then show ?thesis
      using \<open>find _ (employee_profiles db) = Some ep\<close>
        one_record_per_day_update [OF assms Some]
      by (simp add: manual_attendance_entry_def Let_def)
  qed
qed

lemma find_record_of_day:
  assumes "one_record_per_day rows" and "a \<in> set rows"
    and "att_employee_profile_id a = e" and "att_date a = d"
  shows "find (\<lambda>a. att_employee_profile_id a = e \<and> att_date a = d) rows = Some a"
proof -
  let ?k = "\<lambda>a. (att_employee_profile_id a, att_date a)"
  have "distinct (map ?k rows)" using assms(1) by (simp add: one_record_per_day_def)
  from find_unique [OF this assms(2), of "(e, d)"] assms(3,4) show ?thesis by simp
qed

lemma update_record_of_day:
  assumes "one_record_per_day rows"
  shows "update_first (\<lambda>a. att_employee_profile_id a = e \<and> att_date a = d) f rows
           = map (\<lambda>a. if att_employee_profile_id a = e \<and> att_date a = d then f a else a) rows"
proof -
  let ?k = "\<lambda>a. (att_employee_profile_id a, att_date a)"
  have "distinct (map ?k rows)" using assms by (simp add: one_record_per_day_def)
  from update_first_unique [OF this, of "(e, d)" f] show ?thesis by simp
qed

lemma check_in_conflict_iff:
  assumes profile: "find (\<lambda>p. ep_user_id p = u_id current_user) (employee_profiles db) = Some ep"
    and inv: "one_record_per_day (attendances db)"
  shows "(\<exists>d. fst (check_in now today current_user db) = Inl (Conflict d)) \<longleftrightarrow>
         (\<exists>a\<in>set (attendances db). att_employee_profile_id a = ep_id ep \<and> att_date a = today
              \<and> att_check_in_time a \<noteq> None)"
proof (cases "find (\<lambda>a. att_employee_profile_id a = ep_id ep \<and> att_date a = today) (attendances db)")
  case None
  then have "\<forall>a\<in>set (attendances db). \<not> (att_employee_profile_id a = ep_id ep \<and> att_date a = today)"
    by (simp add: find_None_iff)
  then show ?thesis using None profile by (auto simp: check_in_def Let_def)
next
  case (Some a)
  then have a: "a \<in> set (attendances db)" "att_employee_profile_id a = ep_id ep" "att_date a = today"
    using find_Some_holds [OF Some] by auto
  have only: "b = a" if "b \<in> set (attendances db)" "att_employee_profile_id b = ep_id ep"
    "att_date b = today" for b
    using find_record_of_day [OF inv that] Some by simp
  show ?thesis
  proof (cases "att_check_in_time a")
    case None
    then have "\<not> (\<exists>b\<in>set (attendances db). att_employee_profile_id b = ep_id ep
        \<and> att_date b = today \<and> att_check_in_time b \<noteq> None)"
      using only by auto
    then show ?thesis using None Some profile by (simp add: check_in_def Let_def)
  next
    case (Some t)
    then have "\<exists>b\<in>set (attendances db). att_employee_profile_id b = ep_id ep
        \<and> att_date b = today \<and> att_check_in_time b \<noteq> None"
      using a by auto
    then show ?thesis using Some \<open>find _ (attendances db) = Some a\<close> profile
      by (simp add: check_in_def Let_def)
  qed
qed

lemma check_in_existing:
  assumes profile: "find (\<lambda>p. ep_user_id p = u_id current_user) (employee_profiles db) = Some ep"
    and inv: "one_record_per_day (attendances db)"
    and a: "a \<in> set (attendances db)" "att_employee_profile_id a = ep_id ep" "att_date a = today"
    and none: "att_check_in_time a = None"
  shows "check_in now today current_user db =
           (Inr (a\<lparr>att_check_in_time := Some now, att_status := PRESENT\<rparr>),
            db\<lparr>attendances :=
                 map (\<lambda>r. if att_employee_profile_id r = ep_id ep \<and> att_date r = today
                          then a\<lparr>att_check_in_time := Some now, att_status := PRESENT\<rparr>
                          else r)
                   (attendances db)\<rparr>)"
  using profile find_record_of_day [OF inv a] none update_record_of_day [OF inv]
  by (simp add: check_in_def Let_def)

lemma check_in_new:
  assumes profile: "find (\<lambda>p. ep_user_id p = u_id current_user) (employee_profiles db) = Some ep"
    and none: "\<forall>a\<in>set (attendances db). \<not> (att_employee_profile_id a = ep_id ep \<and> att_date a = today)"
  shows "check_in now today current_user db =
           (Inr \<lparr>att_id = next_id (map att_id (attendances db)),
                 att_employee_profile_id = ep_id ep, att_date = today,
                 att_check_in_time = Some now, att_check_out_time = None,
                 att_status = PRESENT, att_notes = None\<rparr>,
            db\<lparr>attendances := attendances db @
                 [\<lparr>att_id = next_id (map att_id (attendances db)),
                   att_employee_profile_id = ep_id ep, att_date = today,
                   att_check_in_time = Some now, att_check_out_time = None,
                   att_status = PRESENT, att_notes = None\<rparr>]\<rparr>)"
proof -
  have "find (\<lambda>a. att_employee_profile_id a = ep_id ep \<and> att_date a = today) (attendances db) = None"
    using none by (simp add: find_None_iff)
  then show ?thesis using profile by (simp add: check_in_def Let_def)
qed


lemma check_out_no_check_in:
  assumes profile: "find (\<lambda>p. ep_user_id p = u_id current_user) (employee_profiles db) = Some ep"
    and none: "\<forall>a\<in>set (attendances db). att_employee_profile_id a = ep_id ep \<and> att_date a = today
                 \<longrightarrow> att_check_in_time a = None"
  shows "check_out now today current_user db = (Inl (Conflict ''You have not checked in today''), db)"
proof (cases "find (\<lambda>a. att_employee_profile_id a = ep_id ep \<and> att_date a = today) (attendances db)")
  case None
  then show ?thesis using profile by (simp add: check_out_def Let_def)
next
  case (Some a)
  then have "att_check_in_time a = None" using find_Some_holds [OF Some] none by blast
  then show ?thesis using profile Some by (simp add: check_out_def Let_def)
qed

lemma check_out_already:
  assumes profile: "find (\<lambda>p. ep_user_id p = u_id current_user) (employee_profiles db) = Some ep"
    and inv: "one_record_per_day (attendances db)"
    and a: "a \<in> set (attendances db)" "att_employee_profile_id a = ep_id ep" "att_date a = today"
    and out: "att_check_out_time a \<noteq> None"
  shows "\<exists>d. check_out now today current_user db = (Inl (Conflict d), db)"
  using profile find_record_of_day [OF inv a] out
  by (simp add: check_out_def Let_def)

lemma check_out_success:
  assumes profile: "find (\<lambda>p. ep_user_id p = u_id current_user) (employee_profiles db) = Some ep"
    and inv: "one_record_per_day (attendances db)"
    and a: "a \<in> set (attendances db)" "att_employee_profile_id a = ep_id ep" "att_date a = today"
    and inn: "att_check_in_time a \<noteq> None" and out: "att_check_out_time a = None"
  shows "check_out now today current_user db =
           (Inr (a\<lparr>att_check_out_time := Some now\<rparr>),
            db\<lparr>attendances :=
                 map (\<lambda>r. if att_employee_profile_id r = ep_id ep \<and> att_date r = today
                          then a\<lparr>att_check_out_time := Some now\<rparr> else r)
                   (attendances db)\<rparr>)"
  using profile find_record_of_day [OF inv a] inn out update_record_of_day [OF inv]
  by (simp add: check_out_def Let_def)

lemma serve_preserves_invariant:
  "one_record_per_day (attendances db) \<Longrightarrow> one_record_per_day (attendances (serve r db))"
  by (cases r) (simp_all add: check_in_preserves_invariant manual_entry_preserves_invariant)

lemma fold_serve_preserves_invariant:
  "one_record_per_day (attendances db) \<Longrightarrow>
     one_record_per_day (attendances (fold serve rs db))"
  by (induction rs arbitrary: db) (simp_all add: serve_preserves_invariant)

lemma one_record_per_day_count:
  assumes "one_record_per_day rows"
  shows "length (filter (\<lambda>a. att_employee_profile_id a = e \<and> att_date a = d) rows) \<le> 1"
proof -
  let ?k = "\<lambda>a. (att_employee_profile_id a, att_date a)"
  have "distinct (map ?k rows)" using assms by (simp add: one_record_per_day_def)
  then have "distinct (filter (\<lambda>k. k = (e, d)) (map ?k rows))" by (rule distinct_filter)
  moreover have "set (filter (\<lambda>k. k = (e, d)) (map ?k rows)) \<subseteq> {(e, d)}" by auto
  ultimately have "length (filter (\<lambda>k. k = (e, d)) (map ?k rows)) \<le> card {(e, d)}"
    by (metis card_mono distinct_card finite.emptyI finite.insertI)
  then have "length (filter (\<lambda>k. k = (e, d)) (map ?k rows)) \<le> 1" by simp
  moreover have "length (filter (\<lambda>k. k = (e, d)) (map ?k rows))
      = length (filter (\<lambda>a. att_employee_profile_id a = e \<and> att_date a = d) rows)"
    by (induction rows) auto
  ultimately show ?thesis by simp
qed

text \<open>
  Claim C2. From a store in which no two attendance records have the same employee and
  date, \<open>check_in\<close> and \<open>manual_attendance_entry\<close> both lead to a store with the
  same property, whatever their arguments and whether they succeed or fail: each looks the
  record of the key up first and rewrites it in place, and inserts a record only when the
  key has none. So does every sequence of check-ins and manual entries, and in the store
  it reaches each pair of an employee and a date has at most one record.
\<close>

theorem attendance_upsert_preserves_one_record_per_day:
  assumes "one_record_per_day (attendances db)"
  shows "one_record_per_day (attendances (snd (check_in now today current_user db)))
       \<and> one_record_per_day
           (attendances (snd (manual_attendance_entry attendance_in admin db)))
       \<and> one_record_per_day (attendances (fold serve requests db))
       \<and> (\<forall>e d. length (filter (\<lambda>a. att_employee_profile_id a = e \<and> att_date a = d)
                   (attendances (fold serve requests db))) \<le> 1)"
  using check_in_preserves_invariant [OF assms]
    manual_entry_preserves_invariant [OF assms]
    fold_serve_preserves_invariant [OF assms]
    one_record_per_day_count
  by blast

theorem attendance_upsert_preserves_one_record_per_day_witness:
  "one_record_per_day (attendances example_db)
   \<and> one_record_per_day (attendances (snd (check_in 930 101 example_alice example_db)))
   \<and> one_record_per_day (attendances (snd (manual_attendance_entry
         \<lparr>in_employee_profile_id = 10, in_date = 100, in_check_in_time = Some 900,
          in_check_out_time = Some 1700, in_status = PRESENT,
          in_notes = Some ''Manual entry''\<rparr>
         example_admin example_db)))
   \<and> one_record_per_day (attendances (fold serve
         [CheckIn 930 100 example_alice,
          ManualEntry
            \<lparr>in_employee_profile_id = 10, in_date = 100, in_check_in_time = Some 900,
             in_check_out_time = Some 1700, in_status = PRESENT,
             in_notes = Some ''Manual entry''\<rparr> example_admin,
          CheckIn 940 101 example_alice] example_db))
   \<and> length (attendances (fold serve
         [CheckIn 930 100 example_alice,
          ManualEntry
            \<lparr>in_employee_profile_id = 10, in_date = 100, in_check_in_time = Some 900,
             in_check_out_time = Some 1700, in_status = PRESENT,
             in_notes = Some ''Manual entry''\<rparr> example_admin,
          CheckIn 940 101 example_alice] example_db)) = 3"
proof -
  have inv: "one_record_per_day (attendances example_db)"
    by (simp add: one_record_per_day_def example_defs)
  have len: "length (attendances (fold serve
         [CheckIn 930 100 example_alice,
          ManualEntry
            \<lparr>in_employee_profile_id = 10, in_date = 100, in_check_in_time = Some 900,
             in_check_out_time = Some 1700, in_status = PRESENT,
             in_notes = Some ''Manual entry''\<rparr> example_admin,
          CheckIn 940 101 example_alice] example_db)) = 3"
    by (simp add: example_defs check_in_def manual_attendance_entry_def Let_def)
  show ?thesis
    using inv len attendance_upsert_preserves_one_record_per_day [OF inv, of 930 101 example_alice
      "\<lparr>in_employee_profile_id = 10, in_date = 100, in_check_in_time = Some 900,
        in_check_out_time = Some 1700, in_status = PRESENT,
        in_notes = Some ''Manual entry''\<rparr>"
      example_admin
      "[CheckIn 930 100 example_alice,
        ManualEntry
          \<lparr>in_employee_profile_id = 10, in_date = 100, in_check_in_time = Some 900,
           in_check_out_time = Some 1700, in_status = PRESENT,
           in_notes = Some ''Manual entry''\<rparr> example_admin,
        CheckIn 940 101 example_alice]"]
    by blast
qed

text \<open>
  Claim C3. For a user who has an employee profile, in a store with at most one attendance
  record for each employee and date: \<open>check_in\<close> fails with \<open>Conflict\<close> exactly when
  the record of the employee for today has a check-in time; when that record has none, the
  call returns it with the check-in time set to the current timestamp and the status
  \<open>PRESENT\<close>, and rewrites it in the table; when the employee has no record for today,
  the call appends a new record for today with status \<open>PRESENT\<close> and the timestamp.
\<close>

theorem check_in_behaviour:
  assumes profile: "find (\<lambda>p. ep_user_id p = u_id current_user) (employee_profiles db) = Some ep"
    and inv: "one_record_per_day (attendances db)"
  shows "((\<exists>d. fst (check_in now today current_user db) = Inl (Conflict d)) \<longleftrightarrow>
          (\<exists>a\<in>set (attendances db). att_employee_profile_id a = ep_id ep \<and> att_date a = today
               \<and> att_check_in_time a \<noteq> None))
       \<and> (\<forall>a\<in>set (attendances db).
            att_employee_profile_id a = ep_id ep \<and> att_date a = today
              \<and> att_check_in_time a = None \<longrightarrow>
            check_in now today current_user db =
              (Inr (a\<lparr>att_check_in_time := Some now, att_status := PRESENT\<rparr>),
               db\<lparr>attendances :=
                    map (\<lambda>r. if att_employee_profile_id r = ep_id ep \<and> att_date r = today
                             then a\<lparr>att_check_in_time := Some now, att_status := PRESENT\<rparr>
                             else r)
                      (attendances db)\<rparr>))
       \<and> ((\<forall>a\<in>set (attendances db).
              \<not> (att_employee_profile_id a = ep_id ep \<and> att_date a = today)) \<longrightarrow>
            check_in now today current_user db =
              (Inr \<lparr>att_id = next_id (map att_id (attendances db)),
                    att_employee_profile_id = ep_id ep, att_date = today,
                    att_check_in_time = Some now, att_check_out_time = None,
                    att_status = PRESENT, att_notes = None\<rparr>,
               db\<lparr>attendances := attendances db @
                    [\<lparr>att_id = next_id (map att_id (attendances db)),
                      att_employee_profile_id = ep_id ep, att_date = today,
                      att_check_in_time = Some now, att_check_out_time = None,
                      att_status = PRESENT, att_notes = None\<rparr>]\<rparr>))"
proof (intro conjI ballI impI)
  show "(\<exists>d. fst (check_in now today current_user db) = Inl (Conflict d)) \<longleftrightarrow>
          (\<exists>a\<in>set (attendances db). att_employee_profile_id a = ep_id ep \<and> att_date a = today
               \<and> att_check_in_time a \<noteq> None)"
    by (rule check_in_conflict_iff [OF profile inv])
next
  fix a
  assume "a \<in> set (attendances db)"
    and "att_employee_profile_id a = ep_id ep \<and> att_date a = today \<and> att_check_in_time a = None"
  then show "check_in now today current_user db =
              (Inr (a\<lparr>att_check_in_time := Some now, att_status := PRESENT\<rparr>),
               db\<lparr>attendances :=
                    map (\<lambda>r. if att_employee_profile_id r = ep_id ep \<and> att_date r = today
                             then a\<lparr>att_check_in_time := Some now, att_status := PRESENT\<rparr>
                             else r)
                      (attendances db)\<rparr>)"
    using check_in_existing [OF profile inv] by blast
next
  assume "\<forall>a\<in>set (attendances db). \<not> (att_employee_profile_id a = ep_id ep \<and> att_date a = today)"
  then show "check_in now today current_user db =
              (Inr \<lparr>att_id = next_id (map att_id (attendances db)),
                    att_employee_profile_id = ep_id ep, att_date = today,
                    att_check_in_time = Some now, att_check_out_time = None,
                    att_status = PRESENT, att_notes = None\<rparr>,
               db\<lparr>attendances := attendances db @
                    [\<lparr>att_id = next_id (map att_id (attendances db)),
                      att_employee_profile_id = ep_id ep, att_date = today,
                      att_check_in_time = Some now, att_check_out_time = None,
                      att_status = PRESENT, att_notes = None\<rparr>]\<rparr>)"
    by (rule check_in_new [OF profile])
qed


theorem check_in_behaviour_witness:
  "find (\<lambda>p. ep_user_id p = u_id example_alice) (employee_profiles example_db)
     = Some \<lparr>ep_id = 10, ep_user_id = 2, ep_company_id = 1\<rparr>
   \<and> one_record_per_day (attendances example_db)
   \<and> fst (check_in 930 100 example_alice example_db) =
       Inr \<lparr>att_id = 1, att_employee_profile_id = 10, att_date = 100,
            att_check_in_time = Some 930, att_check_out_time = None,
            att_status = PRESENT, att_notes = None\<rparr>
   \<and> length (attendances (snd (check_in 930 100 example_alice example_db))) = 2
   \<and> fst (check_in 930 100 example_bob example_db) = Inl (Conflict ''Already checked in for today'')
   \<and> fst (check_in 930 101 example_bob example_db) =
       Inr \<lparr>att_id = 3, att_employee_profile_id = 11, att_date = 101,
            att_check_in_time = Some 930, att_check_out_time = None,
            att_status = PRESENT, att_notes = None\<rparr>"
proof -
  have profile: "find (\<lambda>p. ep_user_id p = u_id example_alice) (employee_profiles example_db)
     = Some \<lparr>ep_id = 10, ep_user_id = 2, ep_company_id = 1\<rparr>"
    by (simp add: example_defs)
  have inv: "one_record_per_day (attendances example_db)"
    by (simp add: one_record_per_day_def example_defs)
  show ?thesis
    using profile inv check_in_behaviour [OF profile inv, of 930 100]
    by (simp add: example_defs check_in_def Let_def next_id_def)
qed

text \<open>
  Claim C4. For a user who has an employee profile, in a store with at most one attendance
  record for each employee and date: \<open>check_out\<close> fails with \<open>Conflict\<close>, and leaves
  the store as it is, when the employee has no record for today with a check-in time, and
  also when the record for today already has a check-out time; otherwise it sets the
  check-out time of the record to the current timestamp and changes nothing else of it, so
  the status is what it was.
\<close>

theorem check_out_behaviour:
  assumes profile: "find (\<lambda>p. ep_user_id p = u_id current_user) (employee_profiles db) = Some ep"
    and inv: "one_record_per_day (attendances db)"
  shows "((\<forall>a\<in>set (attendances db).
              att_employee_profile_id a = ep_id ep \<and> att_date a = today
                \<longrightarrow> att_check_in_time a = None) \<longrightarrow>
            (\<exists>d. check_out now today current_user db = (Inl (Conflict d), db)))
       \<and> ((\<exists>a\<in>set (attendances db).
              att_employee_profile_id a = ep_id ep \<and> att_date a = today
                \<and> att_check_out_time a \<noteq> None) \<longrightarrow>
            (\<exists>d. check_out now today current_user db = (Inl (Conflict d), db)))
       \<and> (\<forall>a\<in>set (attendances db).
            att_employee_profile_id a = ep_id ep \<and> att_date a = today
              \<and> att_check_in_time a \<noteq> None \<and> att_check_out_time a = None \<longrightarrow>
            check_out now today current_user db =
              (Inr (a\<lparr>att_check_out_time := Some now\<rparr>),
               db\<lparr>attendances :=
                    map (\<lambda>r. if att_employee_profile_id r = ep_id ep \<and> att_date r = today
                             then a\<lparr>att_check_out_time := Some now\<rparr> else r)
                      (attendances db)\<rparr>)
            \<and> att_status (a\<lparr>att_check_out_time := Some now\<rparr>) = att_status a)"
proof (intro conjI ballI impI)
  assume "\<forall>a\<in>set (attendances db).
              att_employee_profile_id a = ep_id ep \<and> att_date a = today
                \<longrightarrow> att_check_in_time a = None"
  then show "\<exists>d. check_out now today current_user db = (Inl (Conflict d), db)"
    using check_out_no_check_in [OF profile] by blast
next
  assume "\<exists>a\<in>set (attendances db).
              att_employee_profile_id a = ep_id ep \<and> att_date a = today
                \<and> att_check_out_time a \<noteq> None"
  then show "\<exists>d. check_out now today current_user db = (Inl (Conflict d), db)"
    using check_out_already [OF profile inv] by blast
next
  fix a
  assume "a \<in> set (attendances db)"
    and "att_employee_profile_id a = ep_id ep \<and> att_date a = today
              \<and> att_check_in_time a \<noteq> None \<and> att_check_out_time a = None"
  then show "check_out now today current_user db =
              (Inr (a\<lparr>att_check_out_time := Some now\<rparr>),
               db\<lparr>attendances :=
                    map (\<lambda>r. if att_employee_profile_id r = ep_id ep \<and> att_date r = today
                             then a\<lparr>att_check_out_time := Some now\<rparr> else r)
                      (attendances db)\<rparr>)"
    using check_out_success [OF profile inv] by blast
next
  fix a :: Attendance
  show "att_status (a\<lparr>att_check_out_time := Some now\<rparr>) = att_status a" by simp
qed

theorem check_out_behaviour_witness:
  "find (\<lambda>p. ep_user_id p = u_id example_bob) (employee_profiles example_db)
     = Some \<lparr>ep_id = 11, ep_user_id = 4, ep_company_id = 1\<rparr>
   \<and> one_record_per_day (attendances example_db)
   \<and> fst (check_out 1700 100 example_bob example_db) =
       Inr \<lparr>att_id = 2, att_employee_profile_id = 11, att_date = 100,
            att_check_in_time = Some 900, att_check_out_time = Some 1700,
            att_status = PRESENT, att_notes = None\<rparr>
   \<and> fst (check_out 1800 100 example_bob (snd (check_out 1700 100 example_bob example_db)))
       = Inl (Conflict ''Already checked out for today'')
   \<and> fst (check_out 1700 100 example_alice example_db)
       = Inl (Conflict ''You have not checked in today'')"
proof -
  have profile: "find (\<lambda>p. ep_user_id p = u_id example_bob) (employee_profiles example_db)
     = Some \<lparr>ep_id = 11, ep_user_id = 4, ep_company_id = 1\<rparr>"
    by (simp add: example_defs)
  have inv: "one_record_per_day (attendances example_db)"
    by (simp add: one_record_per_day_def example_defs)
  show ?thesis
    using profile inv check_out_behaviour [OF profile inv, of 100 1700]
    by (simp add: example_defs check_out_def Let_def)
qed

section \<open>Properties of correction requests\<close>

lemma approve_not_pending:
  assumes "find (\<lambda>r. req_id r = request_id) (attendance_correction_requests db) = Some req"
    and "req_status req \<noteq> PENDING"
  shows "approve_correction_request now request_id reviewer db
           = (Inl (Conflict ''Request is not pending''), db)"
  using assms by (simp add: approve_correction_request_def)

lemma approve_result:
  assumes "find (\<lambda>r. req_id r = request_id) (attendance_correction_requests db) = Some req"
    and "req_status req = PENDING"
  shows "fst (approve_correction_request now request_id reviewer db)
           = Inr (req\<lparr>req_status := APPROVED, reviewed_by_id := Some (u_id reviewer),
                      reviewed_at := Some now\<rparr>)"
  using assms by (simp add: approve_correction_request_def Let_def)

lemma approve_request_row:
  assumes found: "find (\<lambda>r. req_id r = request_id) (attendance_correction_requests db) = Some req"
    and "req_status req = PENDING"
  shows "find (\<lambda>r. req_id r = request_id)
           (attendance_correction_requests
              (snd (approve_correction_request now request_id reviewer db)))
           = Some (req\<lparr>req_status := APPROVED, reviewed_by_id := Some (u_id reviewer),
                       reviewed_at := Some now\<rparr>)"
proof -
  have "req_id req = request_id" using find_Some_holds [OF found] by simp
  then show ?thesis
    using assms find_update_first [OF found, of
        "req\<lparr>req_status := APPROVED, reviewed_by_id := Some (u_id reviewer),
             reviewed_at := Some now\<rparr>"]
    by (simp add: approve_correction_request_def Let_def)
qed

lemma approve_attendance_row:
  assumes found: "find (\<lambda>r. req_id r = request_id) (attendance_correction_requests db) = Some req"
    and "req_status req = PENDING"
    and target: "find (\<lambda>a. att_id a = req_attendance_id req) (attendances db) = Some a"
  shows "find (\<lambda>a. att_id a = req_attendance_id req)
           (attendances (snd (approve_correction_request now request_id reviewer db)))
           = Some (a\<lparr>att_check_in_time := requested_check_in_time req,
                     att_check_out_time := requested_check_out_time req\<rparr>)"
proof -
  have "att_id a = req_attendance_id req" using find_Some_holds [OF target] by simp
  then show ?thesis
    using assms find_update_first [OF target, of
        "a\<lparr>att_check_in_time := requested_check_in_time req,
           att_check_out_time := requested_check_out_time req\<rparr>"]
    by (simp add: approve_correction_request_def Let_def)
qed

lemma approve_twice:
  assumes found: "find (\<lambda>r. req_id r = request_id) (attendance_correction_requests db) = Some req"
    and pending: "req_status req = PENDING"
  shows "fst (approve_correction_request now2 request_id reviewer2
                (snd (approve_correction_request now request_id reviewer db)))
           = Inl (Conflict ''Request is not pending'')"
  using approve_not_pending [OF approve_request_row [OF found pending]]
  by simp

lemma approve_missing_attendance:
  assumes found: "find (\<lambda>r. req_id r = request_id) (attendance_correction_requests db) = Some req"
    and pending: "req_status req = PENDING"
    and missing: "\<forall>a\<in>set (attendances db). att_id a \<noteq> req_attendance_id req"
  shows "approve_correction_request now request_id reviewer db
           = (Inr (req\<lparr>req_status := APPROVED, reviewed_by_id := Some (u_id reviewer),
                       reviewed_at := Some now\<rparr>),
              db\<lparr>attendance_correction_requests :=
                   update_first (\<lambda>r. req_id r = request_id)
                     (\<lambda>_. req\<lparr>req_status := APPROVED, reviewed_by_id := Some (u_id reviewer),
                               reviewed_at := Some now\<rparr>)
                     (attendance_correction_requests db)\<rparr>)"
proof -
  have "find (\<lambda>a. att_id a = req_attendance_id req) (attendances db) = None"
    using missing by (simp add: find_None_iff)
  then show ?thesis
    using found pending by (simp add: approve_correction_request_def Let_def)
qed


text \<open>
  Claim C5. For a correction request that exists: when its status is not \<open>PENDING\<close>,
  \<open>approve_correction_request\<close> fails with \<open>Conflict\<close> and leaves the store as it is;
  when it is \<open>PENDING\<close>, the call returns the request with status \<open>APPROVED\<close>, the id
  of the reviewer and the review timestamp, stores it so, and gives the target attendance
  record the requested check-in and check-out times as they are, whatever their order;
  a second approval of the same request then fails with \<open>Conflict\<close>.
\<close>

theorem approve_correction_request_behaviour:
  assumes found:
    "find (\<lambda>r. req_id r = request_id) (attendance_correction_requests db) = Some req"
  shows "(req_status req \<noteq> PENDING \<longrightarrow>
            approve_correction_request now request_id reviewer db
              = (Inl (Conflict ''Request is not pending''), db))
       \<and> (req_status req = PENDING \<longrightarrow>
            fst (approve_correction_request now request_id reviewer db)
              = Inr (req\<lparr>req_status := APPROVED, reviewed_by_id := Some (u_id reviewer),
                         reviewed_at := Some now\<rparr>)
          \<and> find (\<lambda>r. req_id r = request_id)
               (attendance_correction_requests
                  (snd (approve_correction_request now request_id reviewer db)))
              = Some (req\<lparr>req_status := APPROVED, reviewed_by_id := Some (u_id reviewer),
                          reviewed_at := Some now\<rparr>)
          \<and> (\<forall>a. find (\<lambda>a. att_id a = req_attendance_id req) (attendances db) = Some a \<longrightarrow>
                find (\<lambda>a. att_id a = req_attendance_id req)
                  (attendances (snd (approve_correction_request now request_id reviewer db)))
                  = Some (a\<lparr>att_check_in_time := requested_check_in_time req,
                            att_check_out_time := requested_check_out_time req\<rparr>))
          \<and> (\<forall>now2 reviewer2.
                fst (approve_correction_request now2 request_id reviewer2
                       (snd (approve_correction_request now request_id reviewer db)))
                  = Inl (Conflict ''Request is not pending'')))"
  using approve_not_pending [OF found] approve_result [OF found]
    approve_request_row [OF found] approve_attendance_row [OF found]
    approve_twice [OF found]
  by blast

theorem approve_correction_request_behaviour_witness:
  "find (\<lambda>r. req_id r = 1) (attendance_correction_requests example_db)
     = Some \<lparr>req_id = 1, req_attendance_id = 2, requested_by_id = 4,
          reason = ''Missed checkout'',
          requested_check_in_time = Some 1700, requested_check_out_time = Some 800,
          req_status = PENDING, reviewed_by_id = None, reviewed_at = None,
          reviewer_comments = None\<rparr>
   \<and> fst (approve_correction_request 2000 1 example_hr example_db)
       = Inr \<lparr>req_id = 1, req_attendance_id = 2, requested_by_id = 4,
          reason = ''Missed checkout'',
          requested_check_in_time = Some 1700, requested_check_out_time = Some 800,
          req_status = APPROVED, reviewed_by_id = Some 3, reviewed_at = Some 2000,
          reviewer_comments = None\<rparr>
   \<and> find (\<lambda>a. att_id a = 2)
         (attendances (snd (approve_correction_request 2000 1 example_hr example_db)))
       = Some \<lparr>att_id = 2, att_employee_profile_id = 11, att_date = 100,
          att_check_in_time = Some 1700, att_check_out_time = Some 800,
          att_status = PRESENT, att_notes = None\<rparr>
   \<and> fst (approve_correction_request 2100 1 example_admin
            (snd (approve_correction_request 2000 1 example_hr example_db)))
       = Inl (Conflict ''Request is not pending'')"
proof -
  have found: "find (\<lambda>r. req_id r = 1) (attendance_correction_requests example_db)
     = Some \<lparr>req_id = 1, req_attendance_id = 2, requested_by_id = 4,
          reason = ''Missed checkout'',
          requested_check_in_time = Some 1700, requested_check_out_time = Some 800,
          req_status = PENDING, reviewed_by_id = None, reviewed_at = None,
          reviewer_comments = None\<rparr>"
    by (simp add: example_defs)
  show ?thesis
    using found approve_correction_request_behaviour [OF found, of 2000 example_hr]
    by (simp add: example_defs approve_correction_request_def Let_def)
qed

text \<open>
  Claim C9. When the attendance record that a pending request names is not in the store,
  \<open>approve_correction_request\<close> still succeeds: it returns the request as approved,
  with the reviewer and the timestamp, and the request is stored so: looking the request
  up afterwards gives the approved request. The only table that the call changes is the
  table of the requests; no attendance record is modified and no error is raised.
\<close>

theorem approve_without_attendance_record:
  assumes found:
    "find (\<lambda>r. req_id r = request_id) (attendance_correction_requests db) = Some req"
    and pending: "req_status req = PENDING"
    and missing: "\<forall>a\<in>set (attendances db). att_id a \<noteq> req_attendance_id req"
  shows "approve_correction_request now request_id reviewer db
           = (Inr (req\<lparr>req_status := APPROVED, reviewed_by_id := Some (u_id reviewer),
                       reviewed_at := Some now\<rparr>),
              db\<lparr>attendance_correction_requests :=
                   update_first (\<lambda>r. req_id r = request_id)
                     (\<lambda>_. req\<lparr>req_status := APPROVED, reviewed_by_id := Some (u_id reviewer),
                               reviewed_at := Some now\<rparr>)
                     (attendance_correction_requests db)\<rparr>)
       \<and> find (\<lambda>r. req_id r = request_id)
            (attendance_correction_requests
               (snd (approve_correction_request now request_id reviewer db)))
           = Some (req\<lparr>req_status := APPROVED, reviewed_by_id := Some (u_id reviewer),
                       reviewed_at := Some now\<rparr>)
       \<and> req_status (req\<lparr>req_status := APPROVED, reviewed_by_id := Some (u_id reviewer),
                          reviewed_at := Some now\<rparr>) = APPROVED
       \<and> attendances (snd (approve_correction_request now request_id reviewer db))
           = attendances db
       \<and> users (snd (approve_correction_request now request_id reviewer db)) = users db
       \<and> employee_profiles (snd (approve_correction_request now request_id reviewer db))
           = employee_profiles db
       \<and> user_settings (snd (approve_correction_request now request_id reviewer db))
           = user_settings db"
proof -
  have whole: "approve_correction_request now request_id reviewer db
           = (Inr (req\<lparr>req_status := APPROVED, reviewed_by_id := Some (u_id reviewer),
                       reviewed_at := Some now\<rparr>),
              db\<lparr>attendance_correction_requests :=
                   update_first (\<lambda>r. req_id r = request_id)
                     (\<lambda>_. req\<lparr>req_status := APPROVED, reviewed_by_id := Some (u_id reviewer),
                               reviewed_at := Some now\<rparr>)
                     (attendance_correction_requests db)\<rparr>)"
    by (rule approve_missing_attendance [OF found pending missing])
  have stored: "find (\<lambda>r. req_id r = request_id)
            (attendance_correction_requests
               (snd (approve_correction_request now request_id reviewer db)))
           = Some (req\<lparr>req_status := APPROVED, reviewed_by_id := Some (u_id reviewer),
                       reviewed_at := Some now\<rparr>)"
    by (rule approve_request_row [OF found pending])
  have frame: "attendances (snd (approve_correction_request now request_id reviewer db))
           = attendances db"
    "users (snd (approve_correction_request now request_id reviewer db)) = users db"
    "employee_profiles (snd (approve_correction_request now request_id reviewer db))
           = employee_profiles db"
    "user_settings (snd (approve_correction_request now request_id reviewer db))
           = user_settings db"
    by (simp_all add: whole)
  show ?thesis using whole stored frame by simp
qed

theorem approve_without_attendance_record_witness:
  "find (\<lambda>r. req_id r = 2) (attendance_correction_requests example_db)
     = Some \<lparr>req_id = 2, req_attendance_id = 99, requested_by_id = 4,
          reason = ''Wrong day'',
          requested_check_in_time = Some 900, requested_check_out_time = None,
          req_status = PENDING, reviewed_by_id = None, reviewed_at = None,
          reviewer_comments = None\<rparr>
   \<and> fst (approve_correction_request 2000 2 example_admin example_db)
       = Inr \<lparr>req_id = 2, req_attendance_id = 99, requested_by_id = 4,
          reason = ''Wrong day'',
          requested_check_in_time = Some 900, requested_check_out_time = None,
          req_status = APPROVED, reviewed_by_id = Some 1, reviewed_at = Some 2000,
          reviewer_comments = None\<rparr>
   \<and> find (\<lambda>r. req_id r = 2)
         (attendance_correction_requests
            (snd (approve_correction_request 2000 2 example_admin example_db)))
       = Some \<lparr>req_id = 2, req_attendance_id = 99, requested_by_id = 4,
          reason = ''Wrong day'',
          requested_check_in_time = Some 900, requested_check_out_time = None,
          req_status = APPROVED, reviewed_by_id = Some 1, reviewed_at = Some 2000,
          reviewer_comments = None\<rparr>
   \<and> attendances (snd (approve_correction_request 2000 2 example_admin example_db))
       = attendances example_db"
proof -
  have found: "find (\<lambda>r. req_id r = 2) (attendance_correction_requests example_db)
     = Some \<lparr>req_id = 2, req_attendance_id = 99, requested_by_id = 4,
          reason = ''Wrong day'',
          requested_check_in_time = Some 900, requested_check_out_time = None,
          req_status = PENDING, reviewed_by_id = None, reviewed_at = None,
          reviewer_comments = None\<rparr>"
    by (simp add: example_defs)
  have missing: "\<forall>a\<in>set (attendances example_db). att_id a \<noteq>
      req_attendance_id \<lparr>req_id = 2, req_attendance_id = 99, requested_by_id = 4,
          reason = ''Wrong day'',
          requested_check_in_time = Some 900, requested_check_out_time = None,
          req_status = PENDING, reviewed_by_id = None, reviewed_at = None,
          reviewer_comments = None\<rparr>"
    by (simp add: example_defs)
  show ?thesis
    using found approve_without_attendance_record [OF found _ missing, of 2000 example_admin]
    by (simp add: example_defs)
qed

section \<open>Manual attendance entry is an upsert\<close>

lemma manual_entry_twice:
  "manual_attendance_entry attendance_in admin2
     (snd (manual_attendance_entry attendance_in admin db))
   = manual_attendance_entry attendance_in admin db"
proof (cases "find (\<lambda>p. ep_id p = in_employee_profile_id attendance_in) (employee_profiles db)")
  case None
  then show ?thesis by (simp add: manual_attendance_entry_def)
next
  case profile: (Some ep)
  let ?keyed = "\<lambda>a. att_employee_profile_id a = in_employee_profile_id attendance_in
                    \<and> att_date a = in_date attendance_in"
  show ?thesis
  proof (cases "find ?keyed (attendances db)")
    case None
    let ?new = "\<lparr>att_id = next_id (map att_id (attendances db)),
                 att_employee_profile_id = in_employee_profile_id attendance_in,
                 att_date = in_date attendance_in,
                 att_check_in_time = in_check_in_time attendance_in,
                 att_check_out_time = in_check_out_time attendance_in,
                 att_status = in_status attendance_in,
                 att_notes = in_notes attendance_in\<rparr>"
    have first: "manual_attendance_entry attendance_in admin db
        = (Inr ?new, db\<lparr>attendances := attendances db @ [?new]\<rparr>)"
      using profile None by (simp add: manual_attendance_entry_def Let_def)
    have again: "find ?keyed (attendances db @ [?new]) = Some ?new"
      using None by (simp add: find_snoc)
    have rows: "update_first ?keyed (\<lambda>_. ?new) (attendances db @ [?new]) = attendances db @ [?new]"
      using None by (simp add: update_first_snoc)
    have "manual_attendance_entry attendance_in admin2 (db\<lparr>attendances := attendances db @ [?new]\<rparr>)
        = (Inr ?new, db\<lparr>attendances := attendances db @ [?new]\<rparr>)"
      using profile again rows by (simp add: manual_attendance_entry_def Let_def)
    then show ?thesis using first by simp
  next
    case (Some a)
    let ?upd = "a\<lparr>att_check_in_time := in_check_in_time attendance_in,
                  att_check_out_time := in_check_out_time attendance_in,
                  att_status := in_status attendance_in,
                  att_notes := in_notes attendance_in\<rparr>"
    have key: "?keyed ?upd" using find_Some_holds [OF Some] by simp
    have first: "manual_attendance_entry attendance_in admin db
        = (Inr ?upd, db\<lparr>attendances := update_first ?keyed (\<lambda>_. ?upd) (attendances db)\<rparr>)"
      using profile Some by (simp add: manual_attendance_entry_def Let_def)
    have again: "find ?keyed (update_first ?keyed (\<lambda>_. ?upd) (attendances db)) = Some ?upd"
      using find_update_first [OF Some, of ?upd] key by simp
    have rows: "update_first ?keyed (\<lambda>_. ?upd) (update_first ?keyed (\<lambda>_. ?upd) (attendances db))
        = update_first ?keyed (\<lambda>_. ?upd) (attendances db)"
      using update_first_twice [of ?keyed ?upd] key by simp
    have "manual_attendance_entry attendance_in admin2
            (db\<lparr>attendances := update_first ?keyed (\<lambda>_. ?upd) (attendances db)\<rparr>)
        = (Inr ?upd, db\<lparr>attendances := update_first ?keyed (\<lambda>_. ?upd) (attendances db)\<rparr>)"
      using profile again rows by (simp add: manual_attendance_entry_def Let_def)
    then show ?thesis using first by simp
  qed
qed


lemma manual_entry_stored:
  assumes profile:
    "find (\<lambda>p. ep_id p = in_employee_profile_id attendance_in) (employee_profiles db) = Some ep"
  shows "\<exists>r. fst (manual_attendance_entry attendance_in admin db) = Inr r
       \<and> find (\<lambda>a. att_employee_profile_id a = in_employee_profile_id attendance_in
                   \<and> att_date a = in_date attendance_in)
            (attendances (snd (manual_attendance_entry attendance_in admin db))) = Some r
       \<and> att_employee_profile_id r = in_employee_profile_id attendance_in
       \<and> att_date r = in_date attendance_in
       \<and> att_check_in_time r = in_check_in_time attendance_in
       \<and> att_check_out_time r = in_check_out_time attendance_in
       \<and> att_status r = in_status attendance_in
       \<and> att_notes r = in_notes attendance_in"
proof (cases "find (\<lambda>a. att_employee_profile_id a = in_employee_profile_id attendance_in
                   \<and> att_date a = in_date attendance_in) (attendances db)")
  case None
  then show ?thesis
    using profile by (simp add: manual_attendance_entry_def Let_def find_snoc)
next
  case (Some a)
  let ?upd = "a\<lparr>att_check_in_time := in_check_in_time attendance_in,
                att_check_out_time := in_check_out_time attendance_in,
                att_status := in_status attendance_in,
                att_notes := in_notes attendance_in\<rparr>"
  have key: "att_employee_profile_id a = in_employee_profile_id attendance_in
      \<and> att_date a = in_date attendance_in"
    using find_Some_holds [OF Some] by simp
  then show ?thesis
    using profile Some find_update_first [OF Some, of ?upd]
    by (simp add: manual_attendance_entry_def Let_def)
qed

text \<open>
  Claim C6. Performing \<open>manual_attendance_entry\<close> a second time with the same payload,
  by the same or another privileged user, returns the same result and leaves the same store
  as performing it once. When the employee profile of the payload exists, the call
  succeeds and the record stored for the employee and date of the payload has the check-in
  time, the check-out time, the status and the notes of the payload.
\<close>

theorem manual_attendance_entry_idempotent:
  "manual_attendance_entry attendance_in admin2
     (snd (manual_attendance_entry attendance_in admin db))
   = manual_attendance_entry attendance_in admin db
   \<and> (\<forall>ep. find (\<lambda>p. ep_id p = in_employee_profile_id attendance_in) (employee_profiles db)
             = Some ep \<longrightarrow>
        (\<exists>r. fst (manual_attendance_entry attendance_in admin db) = Inr r
           \<and> find (\<lambda>a. att_employee_profile_id a = in_employee_profile_id attendance_in
                       \<and> att_date a = in_date attendance_in)
                (attendances (snd (manual_attendance_entry attendance_in admin db))) = Some r
           \<and> att_employee_profile_id r = in_employee_profile_id attendance_in
           \<and> att_date r = in_date attendance_in
           \<and> att_check_in_time r = in_check_in_time attendance_in
           \<and> att_check_out_time r = in_check_out_time attendance_in
           \<and> att_status r = in_status attendance_in
           \<and> att_notes r = in_notes attendance_in))"
  using manual_entry_twice [of attendance_in admin2 admin db]
    manual_entry_stored [of attendance_in db _ admin]
  by blast

theorem manual_attendance_entry_idempotent_witness:
  "manual_attendance_entry
     \<lparr>in_employee_profile_id = 10, in_date = 100, in_check_in_time = Some 900,
      in_check_out_time = Some 1700, in_status = HALF_DAY, in_notes = Some ''Manual entry''\<rparr>
     example_hr
     (snd (manual_attendance_entry
        \<lparr>in_employee_profile_id = 10, in_date = 100, in_check_in_time = Some 900,
         in_check_out_time = Some 1700, in_status = HALF_DAY, in_notes = Some ''Manual entry''\<rparr>
        example_admin example_db))
   = (Inr \<lparr>att_id = 1, att_employee_profile_id = 10, att_date = 100,
           att_check_in_time = Some 900, att_check_out_time = Some 1700,
           att_status = HALF_DAY, att_notes = Some ''Manual entry''\<rparr>,
      example_db\<lparr>attendances :=
        [\<lparr>att_id = 1, att_employee_profile_id = 10, att_date = 100,
           att_check_in_time = Some 900, att_check_out_time = Some 1700,
           att_status = HALF_DAY, att_notes = Some ''Manual entry''\<rparr>,
         \<lparr>att_id = 2, att_employee_profile_id = 11, att_date = 100,
          att_check_in_time = Some 900, att_check_out_time = None,
          att_status = PRESENT, att_notes = None\<rparr>]\<rparr>)"
proof -
  have once: "manual_attendance_entry
     \<lparr>in_employee_profile_id = 10, in_date = 100, in_check_in_time = Some 900,
      in_check_out_time = Some 1700, in_status = HALF_DAY, in_notes = Some ''Manual entry''\<rparr>
     example_admin example_db
   = (Inr \<lparr>att_id = 1, att_employee_profile_id = 10, att_date = 100,
           att_check_in_time = Some 900, att_check_out_time = Some 1700,
           att_status = HALF_DAY, att_notes = Some ''Manual entry''\<rparr>,
      example_db\<lparr>attendances :=
        [\<lparr>att_id = 1, att_employee_profile_id = 10, att_date = 100,
           att_check_in_time = Some 900, att_check_out_time = Some 1700,
           att_status = HALF_DAY, att_notes = Some ''Manual entry''\<rparr>,
         \<lparr>att_id = 2, att_employee_profile_id = 11, att_date = 100,
          att_check_in_time = Some 900, att_check_out_time = None,
          att_status = PRESENT, att_notes = None\<rparr>]\<rparr>)"
    by (simp add: example_defs manual_attendance_entry_def Let_def)
  show ?thesis
    using manual_attendance_entry_idempotent [of
      "\<lparr>in_employee_profile_id = 10, in_date = 100, in_check_in_time = Some 900,
      in_check_out_time = Some 1700, in_status = HALF_DAY, in_notes = Some ''Manual entry''\<rparr>"
      example_hr example_admin example_db]
    by (simp only: once)
qed

section \<open>Authorization on the user endpoints\<close>








section \<open>Properties of settings and registration\<close>

lemma fold_max_ge: "a \<le> fold max ids (a::nat)"
  by (induction ids arbitrary: a) (auto intro: order_trans [OF max.cobounded2])

lemma fold_max_mem: "x \<in> set ids \<Longrightarrow> x \<le> fold max ids (a::nat)"
proof (induction ids arbitrary: a)
  case Nil
  then show ?case by simp
next
  case (Cons y ys)
  show ?case
  proof (cases "x = y")
    case True
    have "y \<le> max y a" by simp
    also have "\<dots> \<le> fold max ys (max y a)" by (rule fold_max_ge)
    finally show ?thesis using True by simp
  next
    case False
    then show ?thesis using Cons by simp
  qed
qed

lemma next_id_fresh: "next_id ids \<notin> set ids"
  using fold_max_mem [of "next_id ids" ids 0] by (auto simp: next_id_def)

lemma UserSettingsSchema_complete:
  assumes "receive_notifications row \<noteq> None" and "theme row \<noteq> None"
    and "language row \<noteq> None"
  shows "UserSettingsSchema row = Inr row"
  using assms by (simp add: UserSettingsSchema_def)

lemma UserSettingsSchema_new [simp]:
  "UserSettingsSchema (new_user_settings i u) = Inr (new_user_settings i u)"
  by (simp add: UserSettingsSchema_def new_user_settings_def)

lemma get_my_settings_existing:
  assumes "find (\<lambda>s. set_user_id s = u_id current_user) (user_settings db) = Some row"
    and "receive_notifications row \<noteq> None" and "theme row \<noteq> None"
    and "language row \<noteq> None"
  shows "get_my_settings current_user db = (Inr row, db)"
  using assms by (simp add: get_my_settings_def UserSettingsSchema_def)

lemma get_my_settings_missing:
  assumes "find (\<lambda>s. set_user_id s = u_id current_user) (user_settings db) = None"
  shows "get_my_settings current_user db =
           (Inr (new_user_settings (next_id (map set_id (user_settings db))) (u_id current_user)),
            db\<lparr>user_settings := user_settings db @
                 [new_user_settings (next_id (map set_id (user_settings db)))
                    (u_id current_user)]\<rparr>)"
  using assms by (simp add: get_my_settings_def Let_def)

lemma get_my_settings_succeeds:
  assumes "\<forall>row. find (\<lambda>s. set_user_id s = u_id current_user) (user_settings db) = Some row
             \<longrightarrow> receive_notifications row \<noteq> None \<and> theme row \<noteq> None
                 \<and> language row \<noteq> None"
  shows "\<exists>row. fst (get_my_settings current_user db) = Inr row"
proof (cases "find (\<lambda>s. set_user_id s = u_id current_user) (user_settings db)")
  case None
  then show ?thesis using get_my_settings_missing [OF None] by simp
next
  case (Some row)
  then show ?thesis using assms get_my_settings_existing [OF Some] by simp
qed

lemma new_user_settings_defaults:
  "set_user_id (new_user_settings i u) = u
   \<and> receive_notifications (new_user_settings i u) = Some True
   \<and> theme (new_user_settings i u) = Some ''light''
   \<and> language (new_user_settings i u) = Some ''en''"
  by (simp add: new_user_settings_def)

lemma user_settings_log_activity [simp]:
  "user_settings (log_activity u a d db) = user_settings db"
  "users (log_activity u a d db) = users db"
  by (simp_all add: log_activity_def)

lemma register_user_success:
  assumes fresh: "find (\<lambda>u. email u = new_email user) (users db) = None"
    and owned: "settings_owned db"
  shows "\<exists>u. fst (register_user get_password_hash user db) = Inr u
       \<and> u_id u \<notin> set (map u_id (users db))
       \<and> email u = new_email user
       \<and> users (snd (register_user get_password_hash user db)) = users db @ [u]"
proof -
  let ?uid = "next_id (map u_id (users db))"
  have new: "?uid \<notin> set (map u_id (users db))" by (rule next_id_fresh)
  have "\<forall>s\<in>set (user_settings db). set_user_id s \<in> set (map u_id (users db))"
    using owned by (simp add: settings_owned_def list_all_iff)
  then have "\<forall>s\<in>set (user_settings db). set_user_id s \<noteq> ?uid"
    using new by metis
  then have none: "find (\<lambda>s. set_user_id s = ?uid) (user_settings db) = None"
    by (simp add: find_None_iff)
  show ?thesis
    using fresh none new
    by (simp add: register_user_def Let_def)
qed

lemma register_user_inserts_settings:
  assumes ok: "fst (register_user get_password_hash user db) = Inr u"
  shows "user_settings (snd (register_user get_password_hash user db))
           = user_settings db @
               [new_user_settings (next_id (map set_id (user_settings db))) (u_id u)]
       \<and> find (\<lambda>s. set_user_id s = u_id u)
            (user_settings (snd (register_user get_password_hash user db)))
           = Some (new_user_settings (next_id (map set_id (user_settings db))) (u_id u))"
proof (cases "find (\<lambda>u. email u = new_email user) (users db)")
  case (Some existing)
  then show ?thesis using ok by (simp add: register_user_def)
next
  case None
  let ?uid = "next_id (map u_id (users db))"
  show ?thesis
  proof (cases "find (\<lambda>s. set_user_id s = ?uid) (user_settings db)")
    case (Some stale)
    then show ?thesis using ok None by (simp add: register_user_def Let_def)
  next
    case none: None
    then show ?thesis
      using ok None
      by (auto simp: register_user_def Let_def find_snoc new_user_settings_def)
  qed
qed

lemma settings_owned_register_user:
  assumes "settings_owned db"
  shows "settings_owned (snd (register_user get_password_hash user db))"
  using assms
  by (auto simp: register_user_def Let_def settings_owned_def list_all_iff
      new_user_settings_def split: option.splits)

lemma settings_owned_get_my_settings:
  assumes "settings_owned db" and "u_id current_user \<in> set (map u_id (users db))"
  shows "settings_owned (snd (get_my_settings current_user db))"
  using assms
  by (auto simp: get_my_settings_def Let_def settings_owned_def list_all_iff
      new_user_settings_def split: option.splits)

lemma settings_owned_update_my_settings:
  assumes "settings_owned db"
  shows "settings_owned (snd (update_my_settings settings_update current_user db))"
proof (cases "find (\<lambda>s. set_user_id s = u_id current_user) (user_settings db)")
  case None
  then show ?thesis using assms by (simp add: update_my_settings_def)
next
  case (Some row)
  let ?k = "set_user_id"
  let ?upd = "row\<lparr>receive_notifications :=
                    assigned (upd_receive_notifications settings_update)
                      (receive_notifications row),
                  theme := assigned (upd_theme settings_update) (theme row),
                  language := assigned (upd_language settings_update) (language row)\<rparr>"
  have "map ?k (update_first (\<lambda>s. set_user_id s = u_id current_user) (\<lambda>_. ?upd) (user_settings db))
      = map ?k (user_settings db)"
    by (rule map_update_first [OF Some]) simp
  then have img: "set_user_id ` set (update_first (\<lambda>s. set_user_id s = u_id current_user) (\<lambda>_. ?upd) (user_settings db))
      = set_user_id ` set (user_settings db)"
    by (metis set_map)
  have old: "\<forall>k\<in>set_user_id ` set (user_settings db). k \<in> set (map u_id (users db))"
    using assms by (auto simp: settings_owned_def list_all_iff)
  have "\<forall>s\<in>set (update_first (\<lambda>s. set_user_id s = u_id current_user) (\<lambda>_. ?upd) (user_settings db)).
          set_user_id s \<in> set (map u_id (users db))"
    using old img by blast
  then show ?thesis
    using Some
    by (simp add: update_my_settings_def Let_def settings_owned_def list_all_iff)
qed



text \<open>
  Claim C8, as amended. For a user whose settings row, when there is one, holds no
  \<^verbatim>\<open>NULL\<close>, \<open>get_my_settings\<close> succeeds: it returns the row of the user when there is
  one, leaving the store as it is, and otherwise inserts and returns a fresh row for the
  user. A fresh row has notifications on, the light theme and the English language.
  Whenever \<open>register_user\<close> returns a user, it has inserted such a fresh row for that
  user; and it does return a user for an email that is not registered yet, in a store
  that satisfies the ownership invariant. The handlers that write settings rows,
  \<open>register_user\<close>, \<open>get_my_settings\<close> for a stored user and \<open>update_my_settings\<close>,
  preserve the ownership invariant.
\<close>

theorem user_settings_created_lazily:
  "(\<forall>row. find (\<lambda>s. set_user_id s = u_id current_user) (user_settings db) = Some row
           \<and> receive_notifications row \<noteq> None \<and> theme row \<noteq> None
           \<and> language row \<noteq> None \<longrightarrow>
         get_my_settings current_user db = (Inr row, db))
   \<and> (find (\<lambda>s. set_user_id s = u_id current_user) (user_settings db) = None \<longrightarrow>
         get_my_settings current_user db =
           (Inr (new_user_settings (next_id (map set_id (user_settings db)))
                   (u_id current_user)),
            db\<lparr>user_settings := user_settings db @
                 [new_user_settings (next_id (map set_id (user_settings db)))
                    (u_id current_user)]\<rparr>))
   \<and> ((\<forall>row. find (\<lambda>s. set_user_id s = u_id current_user) (user_settings db) = Some row
            \<longrightarrow> receive_notifications row \<noteq> None \<and> theme row \<noteq> None
                \<and> language row \<noteq> None) \<longrightarrow>
        (\<exists>row. fst (get_my_settings current_user db) = Inr row))
   \<and> (set_user_id (new_user_settings i uid) = uid
       \<and> receive_notifications (new_user_settings i uid) = Some True
       \<and> theme (new_user_settings i uid) = Some ''light''
       \<and> language (new_user_settings i uid) = Some ''en'')
   \<and> (\<forall>u. fst (register_user get_password_hash user db) = Inr u \<longrightarrow>
          user_settings (snd (register_user get_password_hash user db))
            = user_settings db @
                [new_user_settings (next_id (map set_id (user_settings db))) (u_id u)]
        \<and> find (\<lambda>s. set_user_id s = u_id u)
             (user_settings (snd (register_user get_password_hash user db)))
            = Some (new_user_settings (next_id (map set_id (user_settings db))) (u_id u)))
   \<and> (find (\<lambda>u. email u = new_email user) (users db) = None \<and> settings_owned db \<longrightarrow>
        (\<exists>u. fst (register_user get_password_hash user db) = Inr u
           \<and> u_id u \<notin> set (map u_id (users db))
           \<and> email u = new_email user
           \<and> users (snd (register_user get_password_hash user db)) = users db @ [u]))
   \<and> (settings_owned db \<longrightarrow>
         settings_owned (snd (register_user get_password_hash user db))
       \<and> settings_owned (snd (update_my_settings settings_update current_user db)))
   \<and> (settings_owned db \<and> u_id current_user \<in> set (map u_id (users db)) \<longrightarrow>
         settings_owned (snd (get_my_settings current_user db)))"
proof (intro conjI allI impI)
  fix row
  assume "find (\<lambda>s. set_user_id s = u_id current_user) (user_settings db) = Some row
           \<and> receive_notifications row \<noteq> None \<and> theme row \<noteq> None
           \<and> language row \<noteq> None"
  then show "get_my_settings current_user db = (Inr row, db)"
    using get_my_settings_existing by blast
next
  assume "find (\<lambda>s. set_user_id s = u_id current_user) (user_settings db) = None"
  then show "get_my_settings current_user db =
           (Inr (new_user_settings (next_id (map set_id (user_settings db)))
                   (u_id current_user)),
            db\<lparr>user_settings := user_settings db @
                 [new_user_settings (next_id (map set_id (user_settings db)))
                    (u_id current_user)]\<rparr>)"
    by (rule get_my_settings_missing)
next
  assume "\<forall>row. find (\<lambda>s. set_user_id s = u_id current_user) (user_settings db) = Some row
            \<longrightarrow> receive_notifications row \<noteq> None \<and> theme row \<noteq> None
                \<and> language row \<noteq> None"
  then show "\<exists>row. fst (get_my_settings current_user db) = Inr row"
    by (rule get_my_settings_succeeds)
next
  show "set_user_id (new_user_settings i uid) = uid"
    "receive_notifications (new_user_settings i uid) = Some True"
    "theme (new_user_settings i uid) = Some ''light''"
    "language (new_user_settings i uid) = Some ''en''"
    by (simp_all add: new_user_settings_def)
next
  fix u
  assume ok: "fst (register_user get_password_hash user db) = Inr u"
  show "user_settings (snd (register_user get_password_hash user db))
            = user_settings db @
                [new_user_settings (next_id (map set_id (user_settings db))) (u_id u)]"
    using register_user_inserts_settings [OF ok] by (rule conjunct1)
  show "find (\<lambda>s. set_user_id s = u_id u)
             (user_settings (snd (register_user get_password_hash user db)))
            = Some (new_user_settings (next_id (map set_id (user_settings db))) (u_id u))"
    using register_user_inserts_settings [OF ok] by (rule conjunct2)
next
  assume "find (\<lambda>u. email u = new_email user) (users db) = None \<and> settings_owned db"
  then show "\<exists>u. fst (register_user get_password_hash user db) = Inr u
           \<and> u_id u \<notin> set (map u_id (users db))
           \<and> email u = new_email user
           \<and> users (snd (register_user get_password_hash user db)) = users db @ [u]"
    using register_user_success by blast
next
  assume "settings_owned db"
  then show "settings_owned (snd (register_user get_password_hash user db))"
    by (rule settings_owned_register_user)
next
  assume "settings_owned db"
  then show "settings_owned (snd (update_my_settings settings_update current_user db))"
    by (rule settings_owned_update_my_settings)
next
  assume "settings_owned db \<and> u_id current_user \<in> set (map u_id (users db))"
  then show "settings_owned (snd (get_my_settings current_user db))"
    using settings_owned_get_my_settings by blast
qed


theorem user_settings_created_lazily_witness:
  "find (\<lambda>s. set_user_id s = u_id example_alice) (user_settings example_db) = None
   \<and> find (\<lambda>u. email u = ''carol@x.com'') (users example_db) = None
   \<and> settings_owned example_db
   \<and> get_my_settings example_admin example_db =
       (Inr \<lparr>set_id = 1, set_user_id = 1, receive_notifications = Some False,
             theme = Some ''dark'', language = Some ''en''\<rparr>, example_db)
   \<and> fst (get_my_settings example_alice example_db) =
       Inr \<lparr>set_id = 2, set_user_id = 2, receive_notifications = Some True,
            theme = Some ''light'', language = Some ''en''\<rparr>
   \<and> (\<exists>u. fst (register_user (\<lambda>p. p)
                 \<lparr>new_email = ''carol@x.com'', new_role = EMPLOYEE, new_is_active = True,
                  new_password = ''secret''\<rparr> example_db) = Inr u
          \<and> find (\<lambda>s. set_user_id s = u_id u)
               (user_settings (snd (register_user (\<lambda>p. p)
                 \<lparr>new_email = ''carol@x.com'', new_role = EMPLOYEE, new_is_active = True,
                  new_password = ''secret''\<rparr> example_db)))
             = Some \<lparr>set_id = 2, set_user_id = u_id u, receive_notifications = Some True,
                     theme = Some ''light'', language = Some ''en''\<rparr>)
   \<and> settings_owned (snd (get_my_settings example_alice example_db))"
proof -
  let ?carol = "\<lparr>new_email = ''carol@x.com'', new_role = EMPLOYEE, new_is_active = True,
                 new_password = ''secret''\<rparr>"
  have none: "find (\<lambda>s. set_user_id s = u_id example_alice) (user_settings example_db) = None"
    by (simp add: example_defs)
  have admin: "find (\<lambda>s. set_user_id s = u_id example_admin) (user_settings example_db)
      = Some \<lparr>set_id = 1, set_user_id = 1, receive_notifications = Some False,
             theme = Some ''dark'', language = Some ''en''\<rparr>
      \<and> receive_notifications \<lparr>set_id = 1, set_user_id = 1,
             receive_notifications = Some False,
             theme = Some ''dark'', language = Some ''en''\<rparr> \<noteq> None
      \<and> theme \<lparr>set_id = 1, set_user_id = 1, receive_notifications = Some False,
             theme = Some ''dark'', language = Some ''en''\<rparr> \<noteq> None
      \<and> language \<lparr>set_id = 1, set_user_id = 1, receive_notifications = Some False,
             theme = Some ''dark'', language = Some ''en''\<rparr> \<noteq> None"
    by (simp add: example_defs)
  have fresh: "find (\<lambda>u. email u = new_email ?carol) (users example_db) = None"
    by (simp add: example_defs)
  have owned: "settings_owned example_db"
    by (simp add: settings_owned_def example_defs)
  have stored: "u_id example_alice \<in> set (map u_id (users example_db))"
    by (simp add: example_defs)
  have ids: "next_id (map set_id (user_settings example_db)) = 2"
    by (simp add: next_id_def example_defs)
  have fresh': "find (\<lambda>u. email u = ''carol@x.com'') (users example_db) = None"
    using fresh by simp
  have a: "get_my_settings example_admin example_db =
       (Inr \<lparr>set_id = 1, set_user_id = 1, receive_notifications = Some False,
             theme = Some ''dark'', language = Some ''en''\<rparr>, example_db)"
    using admin user_settings_created_lazily [of example_admin example_db] by blast
  have b: "fst (get_my_settings example_alice example_db) =
       Inr \<lparr>set_id = 2, set_user_id = 2, receive_notifications = Some True,
            theme = Some ''light'', language = Some ''en''\<rparr>"
    using none ids user_settings_created_lazily [of example_alice example_db]
    by (simp add: new_user_settings_def example_alice_def)
  have c: "\<exists>u. fst (register_user (\<lambda>p. p) ?carol example_db) = Inr u
          \<and> find (\<lambda>s. set_user_id s = u_id u)
               (user_settings (snd (register_user (\<lambda>p. p) ?carol example_db)))
             = Some \<lparr>set_id = 2, set_user_id = u_id u, receive_notifications = Some True,
                     theme = Some ''light'', language = Some ''en''\<rparr>"
  proof -
    obtain u where u: "fst (register_user (\<lambda>p. p) ?carol example_db) = Inr u"
      using fresh owned
        user_settings_created_lazily [of example_alice example_db _ _ "\<lambda>p. p" ?carol]
      by blast
    have "find (\<lambda>s. set_user_id s = u_id u)
               (user_settings (snd (register_user (\<lambda>p. p) ?carol example_db)))
        = Some (new_user_settings (next_id (map set_id (user_settings example_db))) (u_id u))"
      using u user_settings_created_lazily [of example_alice example_db _ _ "\<lambda>p. p" ?carol]
      by blast
    then show ?thesis using u ids by (auto simp: new_user_settings_def)
  qed
  have d: "settings_owned (snd (get_my_settings example_alice example_db))"
    using owned stored user_settings_created_lazily [of example_alice example_db] by blast
  show ?thesis using none fresh' owned a b c d by blast
qed

text \<open>
  As stated, the claim fails: after \<^verbatim>\<open>PUT /settings/me\<close> with a \<^verbatim>\<open>null\<close> theme the row
  of the administrator holds \<^verbatim>\<open>NULL\<close>, and \<^verbatim>\<open>GET /settings/me\<close> then fails for that
  user.
\<close>

theorem get_my_settings_null_counterexample:
  "snd (update_my_settings
          \<lparr>upd_receive_notifications = None, upd_theme = Some None, upd_language = None\<rparr>
          example_admin example_db)
     = example_db\<lparr>user_settings :=
         [\<lparr>set_id = 1, set_user_id = 1, receive_notifications = Some False,
           theme = None, language = Some ''en''\<rparr>]\<rparr>
   \<and> get_my_settings example_admin
        (example_db\<lparr>user_settings :=
           [\<lparr>set_id = 1, set_user_id = 1, receive_notifications = Some False,
             theme = None, language = Some ''en''\<rparr>]\<rparr>)
     = (Inl ResponseValidationError,
        example_db\<lparr>user_settings :=
           [\<lparr>set_id = 1, set_user_id = 1, receive_notifications = Some False,
             theme = None, language = Some ''en''\<rparr>]\<rparr>)"
  by (simp add: example_defs update_my_settings_def get_my_settings_def
      UserSettingsSchema_def assigned_def Let_def)



end
